theory Spec2Isabelle
  imports Main "HOL-Library.AList" "HOL-Library.Word"
begin

section \<open>Go values used by the tracker\<close>

text \<open>
  The development follows two files of the repository:
  \<^verbatim>\<open>pkg/trackers/rollout/multitrack/multitrack.go\<close> (the multi-resource tracker) and
  \<^verbatim>\<open>pkg/tracker/statefulset/rollout_status.go\<close> (the stateful-set completeness predicate).

  Go's \<^verbatim>\<open>int\<close> is taken at its width on 64-bit platforms, \<^verbatim>\<open>int32\<close> and \<^verbatim>\<open>int64\<close> at
  theirs; \<open>+\<close> and \<open>-\<close> on words wrap around as Go's do, and the signed comparisons
  are \<open>word_sle\<close> and \<open>word_sless\<close>. A pointer that may be \<^verbatim>\<open>nil\<close> is an \<open>option\<close>.
  A Go map that the code ranges over is an association list: the order of the list
  stands for the order in which the runtime happens to enumerate the map, and every
  theorem below holds for every such order. Keys of a Go map are unique, which is the
  hypothesis \<open>distinct (map fst m)\<close> wherever a statement depends on it.
\<close>

type_synonym go_int = "64 word"
type_synonym int32 = "32 word"
type_synonym int64 = "64 word"

text \<open>
  The value of type \<^verbatim>\<open>error\<close> a handler returns: \<^verbatim>\<open>nil\<close> is \<open>None\<close>, and the only
  non-nil value the handlers of this file return is the sentinel \<^verbatim>\<open>tracker.StopTrack\<close>.
  A run-time panic is an outcome of its own.
\<close>

datatype go_error = StopTrack

datatype panic = NilPointerDereference | PanicMessage string

datatype 'a outcome = Returned 'a | Panicked panic

section \<open>Tracking specs\<close>

type_synonym FailMode = string

definition IgnoreAndContinueDeployProcess :: FailMode where
  "IgnoreAndContinueDeployProcess = ''IgnoreAndContinueDeployProcess''"

definition FailWholeDeployProcessImmediately :: FailMode where
  "FailWholeDeployProcessImmediately = ''FailWholeDeployProcessImmediately''"

definition HopeUntilEndOfDeployProcess :: FailMode where
  "HopeUntilEndOfDeployProcess = ''HopeUntilEndOfDeployProcess''"

type_synonym DeployCondition = string

definition ControllerIsReady :: DeployCondition where
  "ControllerIsReady = ''ControllerIsReady''"

definition PodIsReady :: DeployCondition where
  "PodIsReady = ''PodIsReady''"

definition EndOfDeploy :: DeployCondition where
  "EndOfDeploy = ''EndOfDeploy''"

text \<open>
  A compiled \<^verbatim>\<open>*regexp.Regexp\<close> is represented by the pattern it was compiled from;
  no function modelled here runs it.
\<close>

type_synonym Regexp = string

record MultitrackSpec =
  ResourceName :: string
  Namespace :: string
  FailMode :: FailMode
  AllowFailuresCount :: "go_int option"
  FailureThresholdSeconds :: "go_int option"
  LogWatchRegex :: "Regexp option"
  LogWatchRegexByContainerName :: "(string \<times> Regexp option) list"
  ShowLogsUntil :: DeployCondition
  SkipLogsForContainers :: "string list"
  ShowLogsOnlyForContainers :: "string list"

text \<open>\<^verbatim>\<open>setDefaultSpecValues\<close> mutates the spec it is given; the model returns it.\<close>

definition setDefaultSpecValues :: "MultitrackSpec \<Rightarrow> MultitrackSpec" where
  "setDefaultSpecValues spec =
     (let spec1 = (if FailMode spec = [] then spec\<lparr>FailMode := FailWholeDeployProcessImmediately\<rparr> else spec);
          spec2 = (if AllowFailuresCount spec1 = None then spec1\<lparr>AllowFailuresCount := Some 1\<rparr> else spec1);
          spec3 = (if FailureThresholdSeconds spec2 = None then spec2\<lparr>FailureThresholdSeconds := Some 0\<rparr> else spec2);
          spec4 = (if ShowLogsUntil spec3 = [] then spec3\<lparr>ShowLogsUntil := PodIsReady\<rparr> else spec3)
      in spec4)"

section \<open>Per-resource failure state\<close>

record multitrackerResourceState =
  IsFailed :: bool
  LastFailureReason :: string
  FailuresCount :: go_int

text \<open>
  \<^verbatim>\<open>map[string]*multitrackerResourceState\<close>. \<^verbatim>\<open>Multitrack\<close> stores a freshly allocated
  state under every name it registers, so no two names share a state and no stored
  pointer is \<^verbatim>\<open>nil\<close>; the table is modelled by value.
\<close>

type_synonym resourcesStates = "(string \<times> multitrackerResourceState) list"

text \<open>The state \<^verbatim>\<open>&multitrackerResourceState{}\<close> that \<^verbatim>\<open>Multitrack\<close> registers.\<close>

definition zeroResourceState :: multitrackerResourceState where
  "zeroResourceState = \<lparr>IsFailed = False, LastFailureReason = [], FailuresCount = 0\<rparr>"

text \<open>
  \<^verbatim>\<open>handleResourceFailure\<close>. Looking up a name that is not in the table yields a nil
  pointer, and the increment through it panics; so does reading a nil
  \<^verbatim>\<open>AllowFailuresCount\<close>, after the increment has been stored. The result is the table
  as the call leaves it and what the call returned.
\<close>

definition handleResourceFailure ::
  "resourcesStates \<Rightarrow> MultitrackSpec \<Rightarrow> string \<Rightarrow> resourcesStates \<times> go_error option outcome" where
  "handleResourceFailure resourcesStates spec reason =
     (case map_of resourcesStates (ResourceName spec) of
        None \<Rightarrow> (resourcesStates, Panicked NilPointerDereference)
      | Some state \<Rightarrow>
          let state1 = state\<lparr>FailuresCount := FailuresCount state + 1\<rparr>;
              states1 = AList.update (ResourceName spec) state1 resourcesStates
          in (case AllowFailuresCount spec of
                None \<Rightarrow> (states1, Panicked NilPointerDereference)
              | Some allowed \<Rightarrow>
                  if FailuresCount state1 <=s allowed then (states1, Returned None)
                  else if FailMode spec = FailWholeDeployProcessImmediately then
                    (AList.update (ResourceName spec)
                       (state1\<lparr>IsFailed := True, LastFailureReason := reason\<rparr>) states1,
                     Returned (Some StopTrack))
                  else if FailMode spec = HopeUntilEndOfDeployProcess then
                    (AList.update (ResourceName spec)
                       (state1\<lparr>IsFailed := True, LastFailureReason := reason\<rparr>) states1,
                     Returned None)
                  else if FailMode spec = IgnoreAndContinueDeployProcess then
                    (AList.delete (ResourceName spec) states1, Returned (Some StopTrack))
                  else (states1, Panicked (PanicMessage (''bad fail mode: '' @ FailMode spec)))))"

text \<open>\<^verbatim>\<open>handleResourceReadyCondition\<close>: success removes the state and stops the watcher.\<close>

definition handleResourceReadyCondition ::
  "resourcesStates \<Rightarrow> MultitrackSpec \<Rightarrow> resourcesStates \<times> go_error option" where
  "handleResourceReadyCondition resourcesStates spec =
     (AList.delete (ResourceName spec) resourcesStates, Some StopTrack)"

section \<open>The multitracker and its final verdict\<close>

text \<open>
  The status types of the packages \<^verbatim>\<open>deployment\<close> and \<^verbatim>\<open>pod\<close> are declared outside the
  two files; the records below hold the fields the report reads. Fields of a status that
  share a name with a field of \<open>multitrackerResourceState\<close> carry a suffix.
\<close>

record Condition =
  Message :: string
  IsSatisfied :: bool

record ReadyStatus =
  IsReady :: bool
  ProgressingConditions :: "Condition list"
  ReadyConditions :: "Condition list"

record PodStatus =
  IsFailed_pod :: bool
  FailedReason_pod :: string

record DeploymentStatus =
  ReadyStatus :: ReadyStatus
  Pods :: "(string \<times> PodStatus) list"
  IsFailed_deploy :: bool
  FailedReason_deploy :: string

text \<open>
  The fields of \<^verbatim>\<open>multitracker\<close> that the functions below read or write. The status
  tables of pods, stateful sets, daemon sets and jobs and the mutex are left out: no
  function modelled here touches them. \<open>ShownDeploymentMessages\<close> is only ever looked up
  by key, never ranged over, so it is a map into sets of messages.
\<close>

record multitracker =
  DeploymentsSpecs :: "(string \<times> MultitrackSpec) list"
  TrackingPods :: resourcesStates
  TrackingDeployments :: resourcesStates
  DeploymentsStatuses :: "(string \<times> DeploymentStatus) list"
  ShownDeploymentMessages :: "string \<rightharpoonup> string set"
  TrackingStatefulSets :: resourcesStates
  TrackingDaemonSets :: resourcesStates
  TrackingJobs :: resourcesStates

text \<open>The inner and the outer loop of \<^verbatim>\<open>isTrackingAnyNonFailedResource\<close>.\<close>

fun anyStateNotFailed :: "resourcesStates \<Rightarrow> bool" where
  "anyStateNotFailed [] = False"
| "anyStateNotFailed ((name, state) # rest) =
     (if \<not> IsFailed state then True else anyStateNotFailed rest)"

fun anyTableNotFailed :: "resourcesStates list \<Rightarrow> bool" where
  "anyTableNotFailed [] = False"
| "anyTableNotFailed (states # rest) =
     (if anyStateNotFailed states then True else anyTableNotFailed rest)"

definition isTrackingAnyNonFailedResource :: "multitracker \<Rightarrow> bool" where
  "isTrackingAnyNonFailedResource mt =
     anyTableNotFailed [TrackingPods mt, TrackingDeployments mt, TrackingStatefulSets mt,
       TrackingDaemonSets mt, TrackingJobs mt]"

text \<open>The inner and the outer loop of \<^verbatim>\<open>hasFailedTrackingResources\<close>.\<close>

fun anyStateFailed :: "resourcesStates \<Rightarrow> bool" where
  "anyStateFailed [] = False"
| "anyStateFailed ((name, state) # rest) =
     (if IsFailed state then True else anyStateFailed rest)"

fun anyTableFailed :: "resourcesStates list \<Rightarrow> bool" where
  "anyTableFailed [] = False"
| "anyTableFailed (states # rest) =
     (if anyStateFailed states then True else anyTableFailed rest)"

definition hasFailedTrackingResources :: "multitracker \<Rightarrow> bool" where
  "hasFailedTrackingResources mt =
     anyTableFailed [TrackingPods mt, TrackingDeployments mt, TrackingStatefulSets mt,
       TrackingDaemonSets mt, TrackingJobs mt]"

text \<open>\<^verbatim>\<open>strings.Join\<close> of the standard library, and the line feed \<^verbatim>\<open>"\n"\<close>.\<close>

fun strings_Join :: "string list \<Rightarrow> string \<Rightarrow> string" where
  "strings_Join [] sep = []"
| "strings_Join [x] sep = x"
| "strings_Join (x # y # rest) sep = x @ sep @ strings_Join (y # rest) sep"

definition newline :: string where
  "newline = [CHR 0x0A]"

text \<open>
  One of the five loops of \<^verbatim>\<open>formatFailedTrackingResourcesError\<close>: it appends
  \<^verbatim>\<open>fmt.Sprintf("<kind>/%s failed: %s", name, state.LastFailureReason)\<close> for every failed
  state of the table; \<open>kind\<close> is the literal prefix of the loop's format string.
\<close>

fun appendFailed :: "string \<Rightarrow> resourcesStates \<Rightarrow> string list \<Rightarrow> string list" where
  "appendFailed kind [] msgParts = msgParts"
| "appendFailed kind ((name, state) # rest) msgParts =
     (if \<not> IsFailed state then appendFailed kind rest msgParts
      else appendFailed kind rest
             (msgParts @ [kind @ ''/'' @ name @ '' failed: '' @ LastFailureReason state]))"

text \<open>The error it returns is represented by its message.\<close>

definition formatFailedTrackingResourcesError :: "multitracker \<Rightarrow> string" where
  "formatFailedTrackingResourcesError mt =
     (let msgParts = [];
          msgParts = appendFailed ''po'' (TrackingPods mt) msgParts;
          msgParts = appendFailed ''deploy'' (TrackingDeployments mt) msgParts;
          msgParts = appendFailed ''sts'' (TrackingStatefulSets mt) msgParts;
          msgParts = appendFailed ''ds'' (TrackingDaemonSets mt) msgParts;
          msgParts = appendFailed ''job'' (TrackingJobs mt) msgParts
      in strings_Join msgParts newline)"

text \<open>
  The completion watcher of \<^verbatim>\<open>Multitrack\<close>, from the point where \<^verbatim>\<open>wg.Wait()\<close> has
  returned, that is, once every watcher has finished. \<^verbatim>\<open>PrintStatusReport\<close> has the
  single exit \<^verbatim>\<open>return nil\<close> and writes no tracking table, so the value sent to the
  main loop, which \<^verbatim>\<open>Multitrack\<close> returns, is decided by the tracking tables alone:
  \<open>Some\<close> the aggregated error on \<^verbatim>\<open>errorChan\<close>, or \<open>None\<close> (\<^verbatim>\<open>nil\<close>) after \<^verbatim>\<open>doneChan\<close>.
\<close>

definition completionResult :: "multitracker \<Rightarrow> string option" where
  "completionResult mt =
     (if hasFailedTrackingResources mt then Some (formatFailedTrackingResourcesError mt)
      else None)"

section \<open>Naming tracked resources\<close>

text \<open>
  The five tracking tables of the multitracker and the prefix under which the
  aggregated error names the resources of each.
\<close>

datatype ResourceKind = Pod | Deployment | StatefulSet | DaemonSet | Job

fun trackingOf :: "ResourceKind \<Rightarrow> multitracker \<Rightarrow> resourcesStates" where
  "trackingOf Pod mt = TrackingPods mt"
| "trackingOf Deployment mt = TrackingDeployments mt"
| "trackingOf StatefulSet mt = TrackingStatefulSets mt"
| "trackingOf DaemonSet mt = TrackingDaemonSets mt"
| "trackingOf Job mt = TrackingJobs mt"

fun kindPrefix :: "ResourceKind \<Rightarrow> string" where
  "kindPrefix Pod = ''po''"
| "kindPrefix Deployment = ''deploy''"
| "kindPrefix StatefulSet = ''sts''"
| "kindPrefix DaemonSet = ''ds''"
| "kindPrefix Job = ''job''"

definition allKinds :: "ResourceKind list" where
  "allKinds = [Pod, Deployment, StatefulSet, DaemonSet, Job]"

text \<open>
  The specification's view of the aggregated error: the failed resources as
  (kind, name, reason), kind by kind in the order above and within a kind in the order
  of the table, and the line \<^verbatim>\<open><kind>/<name> failed: <reason>\<close> of each.
\<close>

definition failedOfKind :: "ResourceKind \<Rightarrow> resourcesStates \<Rightarrow> (ResourceKind \<times> string \<times> string) list" where
  "failedOfKind kind states =
     map (\<lambda>(name, state). (kind, name, LastFailureReason state))
       (filter (\<lambda>(name, state). IsFailed state) states)"

definition ListFailed :: "multitracker \<Rightarrow> (ResourceKind \<times> string \<times> string) list" where
  "ListFailed mt = concat (map (\<lambda>kind. failedOfKind kind (trackingOf kind mt)) allKinds)"

fun failedLine :: "ResourceKind \<times> string \<times> string \<Rightarrow> string" where
  "failedLine (kind, name, reason) = kindPrefix kind @ ''/'' @ name @ '' failed: '' @ reason"

section \<open>The deployments part of the status report\<close>

text \<open>
  \<^verbatim>\<open>PrintStatusReport\<close> writes its report through \<^verbatim>\<open>display.OutF\<close>, and paints parts of
  it with \<^verbatim>\<open>color.New(c).Sprintf\<close>. Both belong to other packages, so the report is kept
  structured: a piece of text is plain or painted in a colour, and every call of
  \<^verbatim>\<open>display.OutF\<close> contributes the list of pieces that its format string and arguments
  make up. A function that prints returns what it printed, in order.
\<close>

datatype Color = FgGreen | FgRed | FgYellow | FgBlue

datatype Text = Plain string | Painted Color string

type_synonym OutF = "Text list"

text \<open>The UTF-8 encodings of the glyphs in the format strings.\<close>

definition glyph_tee :: string where
  "glyph_tee = [CHR 0xE2, CHR 0x94, CHR 0x9C]"

definition glyph_bar :: string where
  "glyph_bar = [CHR 0xE2, CHR 0x94, CHR 0x82]"

definition glyph_cross :: string where
  "glyph_cross = [CHR 0xE2, CHR 0x9D, CHR 0x8C]"

definition glyph_cycle :: string where
  "glyph_cycle = [CHR 0xE2, CHR 0x86, CHR 0xBB]"

definition glyph_watch :: string where
  "glyph_watch = [CHR 0xE2, CHR 0x8C, CHR 0x9A]"

definition glyph_check :: string where
  "glyph_check = [CHR 0xE2, CHR 0x9C, CHR 0x85]"

text \<open>
  \<^verbatim>\<open>display.OutF("|   %s\n", color.New(c).Sprintf(...))\<close>, with the bar glyph in the place
  of \<^verbatim>\<open>|\<close>: the indented, painted line that the report prints in several places.
\<close>

definition paintedLine :: "Color \<Rightarrow> string \<Rightarrow> OutF" where
  "paintedLine c text = [Plain (glyph_bar @ ''   ''), Painted c text, Plain newline]"

text \<open>The line of a satisfied progressing condition, format \<^verbatim>\<open>"<cycle>  %s"\<close> in blue.\<close>

definition progressLine :: "string \<Rightarrow> OutF" where
  "progressLine message = paintedLine FgBlue (glyph_cycle @ ''  '' @ message)"

text \<open>
  \<^verbatim>\<open>mt.ShownDeploymentMessages[name][message]\<close>: the lookup (reading a missing inner
  map finds nothing) and the store \<^verbatim>\<open>= struct{}{}\<close>. The store happens only after the
  report has made sure that the inner map exists.
\<close>

type_synonym ShownMessages = "string \<rightharpoonup> string set"

definition hasShown :: "ShownMessages \<Rightarrow> string \<Rightarrow> string \<Rightarrow> bool" where
  "hasShown shown name message =
     (case shown name of None \<Rightarrow> False | Some messages \<Rightarrow> message \<in> messages)"

definition markShown :: "ShownMessages \<Rightarrow> string \<Rightarrow> string \<Rightarrow> ShownMessages" where
  "markShown shown name message =
     (case shown name of
        None \<Rightarrow> shown(name \<mapsto> {message})
      | Some messages \<Rightarrow> shown(name \<mapsto> insert message messages))"

text \<open>The zero \<^verbatim>\<open>MultitrackSpec\<close> that \<^verbatim>\<open>mt.DeploymentsSpecs[name]\<close> yields for a missing name.\<close>

definition zeroMultitrackSpec :: MultitrackSpec where
  "zeroMultitrackSpec =
     \<lparr>ResourceName = [], Namespace = [], FailMode = [], AllowFailuresCount = None,
      FailureThresholdSeconds = None, LogWatchRegex = None, LogWatchRegexByContainerName = [],
      ShowLogsUntil = [], SkipLogsForContainers = [], ShowLogsOnlyForContainers = []\<rparr>"

text \<open>The name of the deployment, painted by fail mode and status (\<^verbatim>\<open>var resource string\<close>).\<close>

definition deploymentResource :: "MultitrackSpec \<Rightarrow> string \<Rightarrow> DeploymentStatus \<Rightarrow> Text" where
  "deploymentResource spec name status =
     (if FailMode spec = FailWholeDeployProcessImmediately then
        (if IsReady (ReadyStatus status) then Painted FgGreen (''deploy/'' @ name)
         else if IsFailed_deploy status then Painted FgRed (''deploy/'' @ name)
         else Painted FgYellow (''deploy/'' @ name))
      else if FailMode spec = IgnoreAndContinueDeployProcess then
        (if IsReady (ReadyStatus status) then Painted FgGreen (''deploy/'' @ name)
         else Plain (''deploy/'' @ name))
      else if FailMode spec = HopeUntilEndOfDeployProcess then
        (if IsReady (ReadyStatus status) then Painted FgGreen (''deploy/'' @ name)
         else Painted FgYellow (''deploy/'' @ name))
      else Plain [])"

text \<open>\<^verbatim>\<open>for podName, podStatus := range status.Pods\<close>: the failed pods of the deployment.\<close>

fun printFailedPods :: "(string \<times> PodStatus) list \<Rightarrow> OutF list" where
  "printFailedPods [] = []"
| "printFailedPods ((podName, podStatus) # rest) =
     (if IsFailed_pod podStatus then
        paintedLine FgRed (glyph_cross @ '' pod/'' @ podName @ '' '' @ FailedReason_pod podStatus)
          # printFailedPods rest
      else printFailedPods rest)"

text \<open>\<^verbatim>\<open>for _, cond := range status.ReadyStatus.ProgressingConditions\<close>.\<close>

fun printProgressingConditions ::
  "string \<Rightarrow> Condition list \<Rightarrow> ShownMessages \<Rightarrow> ShownMessages \<times> OutF list" where
  "printProgressingConditions name [] shown = (shown, [])"
| "printProgressingConditions name (cond # rest) shown =
     (if IsSatisfied cond then
        (if \<not> hasShown shown name (Message cond) then
           (case printProgressingConditions name rest (markShown shown name (Message cond)) of
              (shown', out) \<Rightarrow> (shown', progressLine (Message cond) # out))
         else printProgressingConditions name rest shown)
      else printProgressingConditions name rest shown)"

text \<open>The messages of the ready conditions that are not satisfied (\<^verbatim>\<open>unreadyMsgs\<close>).\<close>

fun collectUnreadyMsgs :: "Condition list \<Rightarrow> string list \<Rightarrow> string list" where
  "collectUnreadyMsgs [] unreadyMsgs = unreadyMsgs"
| "collectUnreadyMsgs (cond # rest) unreadyMsgs =
     (if \<not> IsSatisfied cond then collectUnreadyMsgs rest (unreadyMsgs @ [Message cond])
      else collectUnreadyMsgs rest unreadyMsgs)"

text \<open>The second loop over \<^verbatim>\<open>status.ReadyStatus.ReadyConditions\<close>: the satisfied ones.\<close>

fun printReadyConditions ::
  "string \<Rightarrow> Condition list \<Rightarrow> ShownMessages \<Rightarrow> ShownMessages \<times> OutF list" where
  "printReadyConditions name [] shown = (shown, [])"
| "printReadyConditions name (cond # rest) shown =
     (if IsSatisfied cond then
        (if \<not> hasShown shown name (Message cond) then
           (case printReadyConditions name rest (markShown shown name (Message cond)) of
              (shown', out) \<Rightarrow>
                (shown', paintedLine FgGreen (glyph_check @ '' '' @ Message cond) # out))
         else printReadyConditions name rest shown)
      else printReadyConditions name rest shown)"

text \<open>
  The body of \<^verbatim>\<open>for name, status := range mt.DeploymentsStatuses\<close>: what it prints for
  one deployment, and the record of shown messages as it leaves it.
\<close>

definition printDeploymentStatus ::
  "(string \<times> MultitrackSpec) list \<Rightarrow> string \<Rightarrow> DeploymentStatus \<Rightarrow> ShownMessages \<Rightarrow>
     ShownMessages \<times> OutF list" where
  "printDeploymentStatus specs name status shown0 =
     (let spec = (case map_of specs name of None \<Rightarrow> zeroMultitrackSpec | Some spec \<Rightarrow> spec);
          shown = (if shown0 name = None then shown0(name \<mapsto> {}) else shown0);
          resource = deploymentResource spec name status;
          header = [Plain (glyph_tee @ '' ''), resource, Plain newline]
      in if IsFailed_deploy status then
           (shown,
            header # paintedLine FgRed (glyph_cross @ '' '' @ FailedReason_deploy status)
              # printFailedPods (Pods status))
         else
           (case printProgressingConditions name (ProgressingConditions (ReadyStatus status)) shown of
              (shown1, progressing) \<Rightarrow>
                let unreadyMsgs = collectUnreadyMsgs (ReadyConditions (ReadyStatus status)) [];
                    unready = (if length unreadyMsgs > 0 then
                                 [paintedLine FgYellow
                                    (glyph_watch @ '' '' @ strings_Join unreadyMsgs '', '')]
                               else [])
                in (case printReadyConditions name (ReadyConditions (ReadyStatus status)) shown1 of
                      (shown2, ready) \<Rightarrow>
                        (shown2,
                         header # progressing @ unready @ ready @ printFailedPods (Pods status)))))"

text \<open>The loop itself (lines 370 to 445 of \<^verbatim>\<open>PrintStatusReport\<close>).\<close>

fun printDeploymentsStatuses ::
  "(string \<times> MultitrackSpec) list \<Rightarrow> (string \<times> DeploymentStatus) list \<Rightarrow> ShownMessages \<Rightarrow>
     ShownMessages \<times> OutF list" where
  "printDeploymentsStatuses specs [] shown = (shown, [])"
| "printDeploymentsStatuses specs ((name, status) # rest) shown =
     (case printDeploymentStatus specs name status shown of
        (shown1, out1) \<Rightarrow>
          (case printDeploymentsStatuses specs rest shown1 of
             (shown2, out2) \<Rightarrow> (shown2, out1 @ out2)))"

text \<open>
  The same on the multitracker: the part of a report frame that is about deployments.
  The rest of \<^verbatim>\<open>PrintStatusReport\<close> prints the other kinds and the frame's caption; it
  neither reads nor writes \<open>ShownDeploymentMessages\<close>.
\<close>

definition PrintStatusReport_deployments :: "multitracker \<Rightarrow> multitracker \<times> OutF list" where
  "PrintStatusReport_deployments mt =
     (case printDeploymentsStatuses (DeploymentsSpecs mt) (DeploymentsStatuses mt)
             (ShownDeploymentMessages mt) of
        (shown, out) \<Rightarrow> (mt\<lparr>ShownDeploymentMessages := shown\<rparr>, out))"

section \<open>Completeness of a stateful set\<close>

text \<open>
  The fields of \<^verbatim>\<open>appsv1.StatefulSet\<close> that \<^verbatim>\<open>StatefulSetComplete\<close> reads, and the two
  strategy types of the Kubernetes API. The replica count of the status carries a
  suffix, since the spec has a field of the same name.
\<close>

type_synonym StatefulSetUpdateStrategyType = string

definition RollingUpdateStatefulSetStrategyType :: StatefulSetUpdateStrategyType where
  "RollingUpdateStatefulSetStrategyType = ''RollingUpdate''"

definition OnDeleteStatefulSetStrategyType :: StatefulSetUpdateStrategyType where
  "OnDeleteStatefulSetStrategyType = ''OnDelete''"

record RollingUpdateStatefulSetStrategy =
  Partition :: "int32 option"

record StatefulSetUpdateStrategy =
  Type :: StatefulSetUpdateStrategyType
  RollingUpdate :: "RollingUpdateStatefulSetStrategy option"

record StatefulSetSpec =
  Replicas :: "int32 option"
  UpdateStrategy :: StatefulSetUpdateStrategy

record StatefulSetStatus =
  ObservedGeneration :: int64
  Replicas_status :: int32
  ReadyReplicas :: int32
  CurrentReplicas :: int32
  UpdatedReplicas :: int32
  CurrentRevision :: string
  UpdateRevision :: string

record StatefulSet =
  Generation :: int64
  Spec :: StatefulSetSpec
  Status :: StatefulSetStatus

text \<open>
  \<^verbatim>\<open>StatefulSetComplete\<close>. The dereference \<^verbatim>\<open>*sts.Spec.Replicas\<close> of the partitioned
  branch would panic on a nil pointer, so the result is an outcome.
\<close>

definition StatefulSetComplete :: "StatefulSet \<Rightarrow> bool outcome" where
  "StatefulSetComplete sts =
     (if ObservedGeneration (Status sts) = 0 \<or> Generation sts \<noteq> ObservedGeneration (Status sts)
      then Returned False
      else if (case Replicas (Spec sts) of
                 None \<Rightarrow> False
               | Some replicas \<Rightarrow>
                   replicas \<noteq> Replicas_status (Status sts) \<or> replicas \<noteq> ReadyReplicas (Status sts))
      then Returned False
      else if Type (UpdateStrategy (Spec sts)) = OnDeleteStatefulSetStrategyType
      then Returned True
      else if Type (UpdateStrategy (Spec sts)) = RollingUpdateStatefulSetStrategyType
      then
        (let partition =
               (case RollingUpdate (UpdateStrategy (Spec sts)) of
                  None \<Rightarrow> 0
                | Some rollingUpdate \<Rightarrow>
                    (case (Replicas (Spec sts), Partition rollingUpdate) of
                       (Some replicas, Some p) \<Rightarrow> p
                     | _ \<Rightarrow> 0))
         in if partition = 0 then
              (if UpdateRevision (Status sts) \<noteq> CurrentRevision (Status sts) then Returned False
               else if CurrentReplicas (Status sts) = ReadyReplicas (Status sts) \<and>
                       (UpdatedReplicas (Status sts) = 0 \<or>
                        UpdatedReplicas (Status sts) = CurrentReplicas (Status sts))
               then Returned True
               else Returned False)
            else
              (if UpdateRevision (Status sts) = CurrentRevision (Status sts) then Returned False
               else (case Replicas (Spec sts) of
                       None \<Rightarrow> Panicked NilPointerDereference
                     | Some replicas \<Rightarrow>
                         if CurrentReplicas (Status sts) = partition \<and>
                            UpdatedReplicas (Status sts) = replicas - partition
                         then Returned True
                         else Returned False)))
      else Returned True)"

section \<open>Auxiliary facts\<close>

subsection \<open>The aggregated error\<close>

lemma appendFailed_eq:
  "appendFailed p states msgParts =
     msgParts @ map (\<lambda>(name, state). p @ ''/'' @ name @ '' failed: '' @ LastFailureReason state)
       (filter (\<lambda>(name, state). IsFailed state) states)"
  by (induction p states msgParts rule: appendFailed.induct) simp_all

lemma appendFailed_kind:
  "appendFailed (kindPrefix kind) states msgParts =
     msgParts @ map failedLine (failedOfKind kind states)"
  by (simp add: appendFailed_eq failedOfKind_def comp_def case_prod_unfold)

lemma anyStateFailed_iff:
  "anyStateFailed states \<longleftrightarrow> (\<exists>(name, state) \<in> set states. IsFailed state)"
  by (induction states rule: anyStateFailed.induct) auto

lemma failedOfKind_Nil_iff: "failedOfKind kind states = [] \<longleftrightarrow> \<not> anyStateFailed states"
  by (induction states rule: anyStateFailed.induct) (auto simp: failedOfKind_def)

lemma hasFailed_ListFailed: "hasFailedTrackingResources mt \<longleftrightarrow> ListFailed mt \<noteq> []"
  by (auto simp: hasFailedTrackingResources_def ListFailed_def allKinds_def failedOfKind_Nil_iff)

lemma format_ListFailed:
  "formatFailedTrackingResourcesError mt = strings_Join (map failedLine (ListFailed mt)) newline"
  using appendFailed_kind [of Pod] appendFailed_kind [of Deployment]
    appendFailed_kind [of StatefulSet] appendFailed_kind [of DaemonSet] appendFailed_kind [of Job]
  by (simp add: formatFailedTrackingResourcesError_def ListFailed_def allKinds_def Let_def)


lemma ListFailed_member:
  "(kind, name, reason) \<in> set (ListFailed mt) \<longleftrightarrow>
     (\<exists>state. (name, state) \<in> set (trackingOf kind mt) \<and> IsFailed state \<and>
        LastFailureReason state = reason)"
  by (cases kind) (auto simp: ListFailed_def allKinds_def failedOfKind_def)



lemma completionResult_failure_iff:
  "completionResult mt \<noteq> None \<longleftrightarrow>
     (\<exists>kind \<in> set allKinds. \<exists>(name, state) \<in> set (trackingOf kind mt). IsFailed state)"
  by (auto simp: completionResult_def hasFailedTrackingResources_def allKinds_def anyStateFailed_iff)

subsection \<open>The failure handler on a tracked resource\<close>

lemma handleResourceFailure_tracked:
  assumes "map_of resourcesStates (ResourceName spec) = Some state"
    and "AllowFailuresCount spec = Some allowed"
  shows "handleResourceFailure resourcesStates spec reason =
     (let state1 = state\<lparr>FailuresCount := FailuresCount state + 1\<rparr>;
          name = ResourceName spec
      in if FailuresCount state1 <=s allowed then
           (AList.update name state1 resourcesStates, Returned None)
         else if FailMode spec = FailWholeDeployProcessImmediately then
           (AList.update name (state1\<lparr>IsFailed := True, LastFailureReason := reason\<rparr>) resourcesStates,
            Returned (Some StopTrack))
         else if FailMode spec = HopeUntilEndOfDeployProcess then
           (AList.update name (state1\<lparr>IsFailed := True, LastFailureReason := reason\<rparr>) resourcesStates,
            Returned None)
         else if FailMode spec = IgnoreAndContinueDeployProcess then
           (AList.delete name resourcesStates, Returned (Some StopTrack))
         else (AList.update name state1 resourcesStates,
               Panicked (PanicMessage (''bad fail mode: '' @ FailMode spec))))"
  using assms
  by (simp add: handleResourceFailure_def Let_def AList.delete_update_same)

lemma sint_succ64:
  fixes c :: go_int
  assumes "sint c < 2 ^ 63 - 1"
  shows "sint (c + 1) = sint c + 1"
proof -
  have lo: "- (2 ^ 63) \<le> sint c" using sint_ge [of c] by simp
  have "sint (c + 1) = signed_take_bit 63 (sint c + 1)"
    by (simp add: sint_word_ariths)
  also have "\<dots> = sint c + 1"
    using assms lo by (intro signed_take_bit_int_eq_self) simp_all
  finally show ?thesis .
qed

lemma update_keys_tracked:
  "map_of al k = Some v \<Longrightarrow> map fst (AList.update k v' al) = map fst al"
  by (induction al) (auto split: if_splits)


section \<open>The failure state machine\<close>



text \<open>
  Claim C2. When the failure count of a resource tracked under
  \<open>HopeUntilEndOfDeployProcess\<close> goes beyond \<open>AllowFailuresCount\<close>, the handler sets
  \<open>IsFailed\<close>, stores the reason and returns \<^verbatim>\<open>nil\<close> (keep watching); the resource stays in
  the table, whose names do not change. The verdict of the completion watcher, taken once
  every watcher has finished, is an error exactly when some state in one of the five
  tables has \<open>IsFailed\<close> set, and the error is then the aggregated one.
\<close>

theorem hope_until_end_latches_failure:
  assumes tracked: "map_of resourcesStates (ResourceName spec) = Some state"
    and mode: "FailMode spec = HopeUntilEndOfDeployProcess"
    and allowed: "AllowFailuresCount spec = Some allowed"
    and exceeded: "\<not> FailuresCount state + 1 <=s allowed"
  shows "handleResourceFailure resourcesStates spec reason =
           (AList.update (ResourceName spec)
              (state\<lparr>FailuresCount := FailuresCount state + 1, IsFailed := True,
                     LastFailureReason := reason\<rparr>) resourcesStates,
            Returned None) \<and>
         map_of (fst (handleResourceFailure resourcesStates spec reason)) (ResourceName spec) =
           Some (state\<lparr>FailuresCount := FailuresCount state + 1, IsFailed := True,
                       LastFailureReason := reason\<rparr>) \<and>
         map fst (fst (handleResourceFailure resourcesStates spec reason)) = map fst resourcesStates \<and>
         (\<forall>mt. (completionResult mt \<noteq> None) =
            (\<exists>kind \<in> set allKinds. \<exists>(name, state) \<in> set (trackingOf kind mt). IsFailed state)) \<and>
         (\<forall>mt. completionResult mt \<noteq> None \<longrightarrow>
            completionResult mt = Some (formatFailedTrackingResourcesError mt))"
proof -
  have mode': "FailMode spec \<noteq> FailWholeDeployProcessImmediately"
    by (simp add: mode HopeUntilEndOfDeployProcess_def FailWholeDeployProcessImmediately_def)
  have eq: "handleResourceFailure resourcesStates spec reason =
           (AList.update (ResourceName spec)
              (state\<lparr>FailuresCount := FailuresCount state + 1, IsFailed := True,
                     LastFailureReason := reason\<rparr>) resourcesStates,
            Returned None)"
    using exceeded mode mode'
    by (simp add: handleResourceFailure_tracked [OF tracked allowed] Let_def)
  have still: "map_of (fst (handleResourceFailure resourcesStates spec reason)) (ResourceName spec) =
           Some (state\<lparr>FailuresCount := FailuresCount state + 1, IsFailed := True,
                       LastFailureReason := reason\<rparr>)"
    by (simp add: eq AList.update_conv')
  have keys: "map fst (fst (handleResourceFailure resourcesStates spec reason)) = map fst resourcesStates"
    using tracked by (simp add: eq update_keys_tracked)
  have verdict: "\<forall>mt. (completionResult mt \<noteq> None) =
            (\<exists>kind \<in> set allKinds. \<exists>(name, state) \<in> set (trackingOf kind mt). IsFailed state)"
    using completionResult_failure_iff by blast
  have err: "\<forall>mt. completionResult mt \<noteq> None \<longrightarrow>
            completionResult mt = Some (formatFailedTrackingResourcesError mt)"
    by (simp add: completionResult_def)
  from eq still keys verdict err show ?thesis by blast
qed

text \<open>
  At a stateful set \<^verbatim>\<open>db\<close> that has used up its one allowed failure: the next failure is
  latched, the watcher goes on, and a run that ends in this state fails with
  \<^verbatim>\<open>sts/db failed: probe failed\<close>.
\<close>

theorem hope_until_end_latches_failure_witness:
  "map_of [(''db'', \<lparr>IsFailed = False, LastFailureReason = [], FailuresCount = 1\<rparr>)] ''db''
     = Some \<lparr>IsFailed = False, LastFailureReason = [], FailuresCount = 1\<rparr> \<and>
   \<not> (1 :: go_int) + 1 <=s 1 \<and>
   handleResourceFailure [(''db'', \<lparr>IsFailed = False, LastFailureReason = [], FailuresCount = 1\<rparr>)]
     \<lparr>ResourceName = ''db'', Namespace = ''default'', FailMode = HopeUntilEndOfDeployProcess,
      AllowFailuresCount = Some 1, FailureThresholdSeconds = Some 0, LogWatchRegex = None,
      LogWatchRegexByContainerName = [], ShowLogsUntil = PodIsReady, SkipLogsForContainers = [],
      ShowLogsOnlyForContainers = []\<rparr> ''probe failed''
     = ([(''db'', \<lparr>IsFailed = True, LastFailureReason = ''probe failed'', FailuresCount = 2\<rparr>)],
        Returned None) \<and>
   completionResult
     \<lparr>DeploymentsSpecs = [], TrackingPods = [], TrackingDeployments = [], DeploymentsStatuses = [],
      ShownDeploymentMessages = Map.empty,
      TrackingStatefulSets =
        [(''db'', \<lparr>IsFailed = True, LastFailureReason = ''probe failed'', FailuresCount = 2\<rparr>)],
      TrackingDaemonSets = [], TrackingJobs = []\<rparr>
     = Some ''sts/db failed: probe failed''"
  using hope_until_end_latches_failure [of
      "[(''db'', \<lparr>IsFailed = False, LastFailureReason = [], FailuresCount = 1\<rparr>)]"
      "\<lparr>ResourceName = ''db'', Namespace = ''default'', FailMode = HopeUntilEndOfDeployProcess,
      AllowFailuresCount = Some 1, FailureThresholdSeconds = Some 0, LogWatchRegex = None,
      LogWatchRegexByContainerName = [], ShowLogsUntil = PodIsReady, SkipLogsForContainers = [],
      ShowLogsOnlyForContainers = []\<rparr>"
      "\<lparr>IsFailed = False, LastFailureReason = [], FailuresCount = 1\<rparr>" 1 "''probe failed''"]
  by (simp add: word_sle_eq completionResult_def hasFailedTrackingResources_def
      formatFailedTrackingResourcesError_def)

text \<open>
  Claim C3. When the failure count of a resource tracked under
  \<open>IgnoreAndContinueDeployProcess\<close> goes beyond \<open>AllowFailuresCount\<close>, the handler deletes
  the resource's state from the table and returns \<^verbatim>\<open>tracker.StopTrack\<close>; the other names
  keep their states. Whichever of the five tables that table is, the resource is then not
  among the failed resources the aggregated error lists, and if the run does end in
  failure, it is because some other resource is listed.
\<close>

theorem ignore_and_continue_drops_resource:
  assumes tracked: "map_of resourcesStates (ResourceName spec) = Some state"
    and mode: "FailMode spec = IgnoreAndContinueDeployProcess"
    and allowed: "AllowFailuresCount spec = Some allowed"
    and exceeded: "\<not> FailuresCount state + 1 <=s allowed"
    and call: "handleResourceFailure resourcesStates spec reason = (states', result)"
  shows "result = Returned (Some StopTrack) \<and>
         states' = AList.delete (ResourceName spec) resourcesStates \<and>
         map_of states' (ResourceName spec) = None \<and>
         ResourceName spec \<notin> fst ` set states' \<and>
         (\<forall>other. other \<noteq> ResourceName spec \<longrightarrow> map_of states' other = map_of resourcesStates other) \<and>
         (\<forall>kind mt r. trackingOf kind mt = states' \<longrightarrow>
            (kind, ResourceName spec, r) \<notin> set (ListFailed mt)) \<and>
         (\<forall>kind mt. trackingOf kind mt = states' \<and> completionResult mt \<noteq> None \<longrightarrow>
            (\<exists>(kind', name', r) \<in> set (ListFailed mt). (kind', name') \<noteq> (kind, ResourceName spec)))"
proof -
  let ?name = "ResourceName spec"
  have m1: "FailMode spec \<noteq> FailWholeDeployProcessImmediately"
    and m2: "FailMode spec \<noteq> HopeUntilEndOfDeployProcess"
    by (simp_all add: mode HopeUntilEndOfDeployProcess_def FailWholeDeployProcessImmediately_def
        IgnoreAndContinueDeployProcess_def)
  from call exceeded mode m1 m2 have res: "result = Returned (Some StopTrack)"
    and tab: "states' = AList.delete ?name resourcesStates"
    by (simp_all add: handleResourceFailure_tracked [OF tracked allowed] Let_def)
  have gone: "?name \<notin> fst ` set states'"
    unfolding tab by (rule AList.delete_notin_dom)
  have absent: "(kind, ?name, r) \<notin> set (ListFailed mt)"
    if "trackingOf kind mt = states'" for kind mt r
    using that gone by (force simp: ListFailed_member)
  have others: "\<exists>(kind', name', r) \<in> set (ListFailed mt). (kind', name') \<noteq> (kind, ?name)"
    if "trackingOf kind mt = states'" and "completionResult mt \<noteq> None" for kind mt
  proof -
    from that(2) have "ListFailed mt \<noteq> []"
      by (simp add: completionResult_def hasFailed_ListFailed split: if_splits)
    then obtain k n r where in_list: "(k, n, r) \<in> set (ListFailed mt)"
      by (cases "ListFailed mt") auto
    with absent [OF that(1)] have "(k, n) \<noteq> (kind, ?name)" by auto
    with in_list show ?thesis by blast
  qed
  have none: "map_of states' ?name = None"
    by (simp add: tab AList.delete_conv')
  have frame: "\<forall>other. other \<noteq> ?name \<longrightarrow> map_of states' other = map_of resourcesStates other"
    by (simp add: tab AList.delete_conv')
  from res tab none gone frame absent others show ?thesis by blast
qed

text \<open>
  At two deployments, of which \<^verbatim>\<open>cache\<close> has used up its one allowed failure: its next
  failure removes it, \<^verbatim>\<open>web\<close> stays, and a run that ends in this state succeeds.
\<close>

theorem ignore_and_continue_drops_resource_witness:
  "map_of [(''cache'', \<lparr>IsFailed = False, LastFailureReason = [], FailuresCount = 1\<rparr>),
           (''web'', zeroResourceState)] ''cache''
     = Some \<lparr>IsFailed = False, LastFailureReason = [], FailuresCount = 1\<rparr> \<and>
   \<not> (1 :: go_int) + 1 <=s 1 \<and>
   handleResourceFailure [(''cache'', \<lparr>IsFailed = False, LastFailureReason = [], FailuresCount = 1\<rparr>),
                          (''web'', zeroResourceState)]
     \<lparr>ResourceName = ''cache'', Namespace = ''default'', FailMode = IgnoreAndContinueDeployProcess,
      AllowFailuresCount = Some 1, FailureThresholdSeconds = Some 0, LogWatchRegex = None,
      LogWatchRegexByContainerName = [], ShowLogsUntil = PodIsReady, SkipLogsForContainers = [],
      ShowLogsOnlyForContainers = []\<rparr> ''oom''
     = ([(''web'', zeroResourceState)], Returned (Some StopTrack)) \<and>
   map_of [(''web'', zeroResourceState)] ''cache'' = None \<and>
   ListFailed
     \<lparr>DeploymentsSpecs = [], TrackingPods = [], TrackingDeployments = [(''web'', zeroResourceState)],
      DeploymentsStatuses = [], ShownDeploymentMessages = Map.empty,
      TrackingStatefulSets = [], TrackingDaemonSets = [], TrackingJobs = []\<rparr> = [] \<and>
   completionResult
     \<lparr>DeploymentsSpecs = [], TrackingPods = [], TrackingDeployments = [(''web'', zeroResourceState)],
      DeploymentsStatuses = [], ShownDeploymentMessages = Map.empty,
      TrackingStatefulSets = [], TrackingDaemonSets = [], TrackingJobs = []\<rparr> = None"
  using ignore_and_continue_drops_resource [of
      "[(''cache'', \<lparr>IsFailed = False, LastFailureReason = [], FailuresCount = 1\<rparr>),
        (''web'', zeroResourceState)]"
      "\<lparr>ResourceName = ''cache'', Namespace = ''default'', FailMode = IgnoreAndContinueDeployProcess,
      AllowFailuresCount = Some 1, FailureThresholdSeconds = Some 0, LogWatchRegex = None,
      LogWatchRegexByContainerName = [], ShowLogsUntil = PodIsReady, SkipLogsForContainers = [],
      ShowLogsOnlyForContainers = []\<rparr>"
      "\<lparr>IsFailed = False, LastFailureReason = [], FailuresCount = 1\<rparr>" 1 "''oom''"
      "[(''web'', zeroResourceState)]" "Returned (Some StopTrack)"]
  by (simp add: word_sle_eq handleResourceFailure_def Let_def zeroResourceState_def
      completionResult_def hasFailedTrackingResources_def ListFailed_def allKinds_def failedOfKind_def
      FailWholeDeployProcessImmediately_def HopeUntilEndOfDeployProcess_def
      IgnoreAndContinueDeployProcess_def)

text \<open>
  Claim C4. Every failure notification for a tracked resource adds exactly one to its
  \<open>FailuresCount\<close>: a state found under the resource's name after the call has the old
  count plus one, in Go's arithmetic on \<^verbatim>\<open>int\<close>, and so a strictly larger count as long as
  the old one was below the largest \<^verbatim>\<open>int\<close>. When the new count is still at most
  \<open>AllowFailuresCount\<close>, the failure is absorbed: the call returns \<^verbatim>\<open>nil\<close>, and the table
  differs from the old one in that count only; \<open>IsFailed\<close> and \<open>LastFailureReason\<close> of the
  resource, the names in the table and the states of all other names are as before.
\<close>

theorem failure_counted_then_absorbed:
  assumes tracked: "map_of resourcesStates (ResourceName spec) = Some state"
    and call: "handleResourceFailure resourcesStates spec reason = (states', result)"
  shows "(\<forall>state'. map_of states' (ResourceName spec) = Some state' \<longrightarrow>
            FailuresCount state' = FailuresCount state + 1 \<and>
            (sint (FailuresCount state) < 2 ^ 63 - 1 \<longrightarrow>
               sint (FailuresCount state') = sint (FailuresCount state) + 1)) \<and>
         (\<forall>allowed. AllowFailuresCount spec = Some allowed \<and> FailuresCount state + 1 <=s allowed \<longrightarrow>
            result = Returned None \<and>
            states' = AList.update (ResourceName spec)
                        (state\<lparr>FailuresCount := FailuresCount state + 1\<rparr>) resourcesStates \<and>
            map_of states' (ResourceName spec) =
              Some (state\<lparr>FailuresCount := FailuresCount state + 1\<rparr>) \<and>
            map fst states' = map fst resourcesStates \<and>
            (\<forall>other. other \<noteq> ResourceName spec \<longrightarrow>
               map_of states' other = map_of resourcesStates other))"
proof (intro conjI allI impI)
  fix state'
  assume "map_of states' (ResourceName spec) = Some state'"
  with tracked call show count: "FailuresCount state' = FailuresCount state + 1"
    by (auto simp: handleResourceFailure_def Let_def AList.update_conv' AList.delete_conv'
        split: option.splits if_splits)
  assume "sint (FailuresCount state) < 2 ^ 63 - 1"
  then show "sint (FailuresCount state') = sint (FailuresCount state) + 1"
    by (simp add: count sint_succ64)
next
  fix allowed
  assume "AllowFailuresCount spec = Some allowed \<and> FailuresCount state + 1 <=s allowed"
  with tracked call have res: "result = Returned None"
    and tab: "states' = AList.update (ResourceName spec)
                        (state\<lparr>FailuresCount := FailuresCount state + 1\<rparr>) resourcesStates"
    by (simp_all add: handleResourceFailure_tracked Let_def)
  show "result = Returned None" by (rule res)
  show "states' = AList.update (ResourceName spec)
                        (state\<lparr>FailuresCount := FailuresCount state + 1\<rparr>) resourcesStates"
    by (rule tab)
  show "map_of states' (ResourceName spec) = Some (state\<lparr>FailuresCount := FailuresCount state + 1\<rparr>)"
    by (simp add: tab AList.update_conv')
  show "map fst states' = map fst resourcesStates"
    using tracked by (simp add: tab update_keys_tracked)
  fix other
  assume "other \<noteq> ResourceName spec"
  then show "map_of states' other = map_of resourcesStates other"
    by (simp add: tab AList.update_conv')
qed

text \<open>At the first failure of a freshly registered pod \<^verbatim>\<open>web\<close> that tolerates one.\<close>

theorem failure_counted_then_absorbed_witness:
  "map_of [(''web'', zeroResourceState)] ''web'' = Some zeroResourceState \<and>
   handleResourceFailure [(''web'', zeroResourceState)]
     \<lparr>ResourceName = ''web'', Namespace = ''default'', FailMode = FailWholeDeployProcessImmediately,
      AllowFailuresCount = Some 1, FailureThresholdSeconds = Some 0, LogWatchRegex = None,
      LogWatchRegexByContainerName = [], ShowLogsUntil = PodIsReady, SkipLogsForContainers = [],
      ShowLogsOnlyForContainers = []\<rparr> ''crash''
     = ([(''web'', \<lparr>IsFailed = False, LastFailureReason = [], FailuresCount = 1\<rparr>)], Returned None) \<and>
   sint (FailuresCount zeroResourceState) < 2 ^ 63 - 1 \<and>
   FailuresCount zeroResourceState + 1 <=s 1 \<and>
   sint (1 :: go_int) = sint (FailuresCount zeroResourceState) + 1 \<and>
   map fst [(''web'', \<lparr>IsFailed = False, LastFailureReason = [], FailuresCount = 1 :: go_int\<rparr>)] = [''web'']"
  using failure_counted_then_absorbed [of "[(''web'', zeroResourceState)]"
      "\<lparr>ResourceName = ''web'', Namespace = ''default'', FailMode = FailWholeDeployProcessImmediately,
      AllowFailuresCount = Some 1, FailureThresholdSeconds = Some 0, LogWatchRegex = None,
      LogWatchRegexByContainerName = [], ShowLogsUntil = PodIsReady, SkipLogsForContainers = [],
      ShowLogsOnlyForContainers = []\<rparr>" zeroResourceState "''crash''"
      "[(''web'', \<lparr>IsFailed = False, LastFailureReason = [], FailuresCount = 1\<rparr>)]" "Returned None"]
  by (simp add: word_sle_eq handleResourceFailure_def zeroResourceState_def Let_def)

section \<open>What the aggregated error lists\<close>

text \<open>
  Claim C5. The message of the error that \<^verbatim>\<open>formatFailedTrackingResourcesError\<close> returns is
  the lines \<^verbatim>\<open><kind>/<name> failed: <reason>\<close> of the failed resources, joined by line
  feeds. The failed resources are exactly the entries of the five tables whose \<open>IsFailed\<close>
  is set, each with its \<open>LastFailureReason\<close>: an entry that is not failed, and a name that
  is in no table, contribute nothing, and there are as many lines as failed entries. The
  run has failed resources exactly when that list is not empty.
\<close>

theorem aggregated_error_lists_exactly_failed:
  "formatFailedTrackingResourcesError mt = strings_Join (map failedLine (ListFailed mt)) newline \<and>
   (hasFailedTrackingResources mt \<longleftrightarrow> ListFailed mt \<noteq> []) \<and>
   ((kind, name, reason) \<in> set (ListFailed mt) \<longleftrightarrow>
      (\<exists>state. (name, state) \<in> set (trackingOf kind mt) \<and> IsFailed state \<and>
         LastFailureReason state = reason)) \<and>
   length (ListFailed mt) =
     (\<Sum>kind \<leftarrow> allKinds. length (filter (\<lambda>(name, state). IsFailed state) (trackingOf kind mt)))"
  by (simp add: format_ListFailed hasFailed_ListFailed ListFailed_member)
    (simp add: ListFailed_def allKinds_def failedOfKind_def)

text \<open>
  At a failed pod and a failed job of the same name next to a healthy pod: two lines, the
  pod's first.
\<close>

theorem aggregated_error_lists_exactly_failed_witness:
  "formatFailedTrackingResourcesError
     \<lparr>DeploymentsSpecs = [],
      TrackingPods = [(''a'', \<lparr>IsFailed = True, LastFailureReason = ''oom'', FailuresCount = 2\<rparr>),
                      (''b'', zeroResourceState)],
      TrackingDeployments = [], DeploymentsStatuses = [], ShownDeploymentMessages = Map.empty,
      TrackingStatefulSets = [], TrackingDaemonSets = [],
      TrackingJobs = [(''a'', \<lparr>IsFailed = True, LastFailureReason = ''deadline'', FailuresCount = 2\<rparr>)]\<rparr>
     = ''po/a failed: oom'' @ newline @ ''job/a failed: deadline'' \<and>
   ListFailed
     \<lparr>DeploymentsSpecs = [],
      TrackingPods = [(''a'', \<lparr>IsFailed = True, LastFailureReason = ''oom'', FailuresCount = 2\<rparr>),
                      (''b'', zeroResourceState)],
      TrackingDeployments = [], DeploymentsStatuses = [], ShownDeploymentMessages = Map.empty,
      TrackingStatefulSets = [], TrackingDaemonSets = [],
      TrackingJobs = [(''a'', \<lparr>IsFailed = True, LastFailureReason = ''deadline'', FailuresCount = 2\<rparr>)]\<rparr>
     = [(Pod, ''a'', ''oom''), (Job, ''a'', ''deadline'')]"
  using aggregated_error_lists_exactly_failed [of
     "\<lparr>DeploymentsSpecs = [],
      TrackingPods = [(''a'', \<lparr>IsFailed = True, LastFailureReason = ''oom'', FailuresCount = 2\<rparr>),
                      (''b'', zeroResourceState)],
      TrackingDeployments = [], DeploymentsStatuses = [], ShownDeploymentMessages = Map.empty,
      TrackingStatefulSets = [], TrackingDaemonSets = [],
      TrackingJobs = [(''a'', \<lparr>IsFailed = True, LastFailureReason = ''deadline'', FailuresCount = 2\<rparr>)]\<rparr>"
     Pod "''a''" "''oom''"]
  by (simp add: ListFailed_def allKinds_def failedOfKind_def zeroResourceState_def newline_def)

section \<open>When a stateful set is complete\<close>

lemma strategy_types_differ:
  "RollingUpdateStatefulSetStrategyType \<noteq> OnDeleteStatefulSetStrategyType"
  by (simp add: RollingUpdateStatefulSetStrategyType_def OnDeleteStatefulSetStrategyType_def)

text \<open>The nil dereference of the partitioned branch is never reached.\<close>

lemma StatefulSetComplete_returns: "StatefulSetComplete sts \<noteq> Panicked e"
proof (cases "Replicas (Spec sts)")
  case None
  then show ?thesis
    by (simp add: StatefulSetComplete_def Let_def split: option.splits)
next
  case (Some replicas)
  then show ?thesis
    by (simp add: StatefulSetComplete_def Let_def split: option.splits)
qed

lemma StatefulSetComplete_rolling_partitioned:
  assumes "ObservedGeneration (Status sts) \<noteq> 0"
      "Generation sts = ObservedGeneration (Status sts)"
    and "Replicas (Spec sts) = Some desired"
    and "Type (UpdateStrategy (Spec sts)) = RollingUpdateStatefulSetStrategyType"
      "RollingUpdate (UpdateStrategy (Spec sts)) = Some rollingUpdate"
      "Partition rollingUpdate = Some p" "p \<noteq> 0"
  shows "StatefulSetComplete sts =
           Returned (desired = Replicas_status (Status sts) \<and> desired = ReadyReplicas (Status sts) \<and>
                     CurrentRevision (Status sts) \<noteq> UpdateRevision (Status sts) \<and>
                     CurrentReplicas (Status sts) = p \<and>
                     UpdatedReplicas (Status sts) = desired - p)"
proof (cases "desired = Replicas_status (Status sts) \<and> desired = ReadyReplicas (Status sts)")
  case True
  show ?thesis
  proof (cases "UpdateRevision (Status sts) = CurrentRevision (Status sts)")
    case same: True
    with True assms strategy_types_differ show ?thesis
      by (simp add: StatefulSetComplete_def)
  next
    case differ: False
    with True assms strategy_types_differ show ?thesis
      by (simp add: StatefulSetComplete_def)
  qed
next
  case False
  with assms show ?thesis
    by (auto simp: StatefulSetComplete_def)
qed

text \<open>
  Claim C6, with the condition the code checks before it looks at the strategy. For a
  stateful set whose observed generation is non-zero and equal to its generation, whose
  desired replica count is set, and whose strategy is \<^verbatim>\<open>RollingUpdate\<close> with a partition
  \<open>p > 0\<close>, \<^verbatim>\<open>StatefulSetComplete\<close> returns true exactly when the desired replicas equal both
  the observed and the ready replicas, the current revision differs from the update
  revision, the current replicas equal \<open>p\<close> and the updated replicas equal desired minus
  \<open>p\<close> (the subtraction is Go's on \<^verbatim>\<open>int32\<close>). In particular the snapshot desired 3,
  partition 1, current 1, updated 2, revisions \<^verbatim>\<open>v1\<close> and \<^verbatim>\<open>v2\<close> is complete when its
  observed and ready replicas are 3.
\<close>

theorem partitioned_rollout_complete:
  assumes generation: "ObservedGeneration (Status sts) \<noteq> 0"
      "Generation sts = ObservedGeneration (Status sts)"
    and desired: "Replicas (Spec sts) = Some desired"
    and strategy: "Type (UpdateStrategy (Spec sts)) = RollingUpdateStatefulSetStrategyType"
      "RollingUpdate (UpdateStrategy (Spec sts)) = Some rollingUpdate"
      "Partition rollingUpdate = Some p"
    and positive: "0 <s p"
  shows "StatefulSetComplete sts =
           Returned (desired = Replicas_status (Status sts) \<and> desired = ReadyReplicas (Status sts) \<and>
                     CurrentRevision (Status sts) \<noteq> UpdateRevision (Status sts) \<and>
                     CurrentReplicas (Status sts) = p \<and>
                     UpdatedReplicas (Status sts) = desired - p) \<and>
         (desired = 3 \<and> p = 1 \<and> Replicas_status (Status sts) = 3 \<and> ReadyReplicas (Status sts) = 3 \<and>
          CurrentReplicas (Status sts) = 1 \<and> UpdatedReplicas (Status sts) = 2 \<and>
          CurrentRevision (Status sts) = ''v1'' \<and> UpdateRevision (Status sts) = ''v2''
          \<longrightarrow> StatefulSetComplete sts = Returned True)"
proof -
  from positive have "p \<noteq> 0" by auto
  note eq = StatefulSetComplete_rolling_partitioned [OF generation desired strategy this]
  show ?thesis
    unfolding eq by auto
qed

text \<open>The snapshot, observed and ready replicas at 3, generation current.\<close>

theorem partitioned_rollout_complete_witness:
  "(0 :: int32) <s 1 \<and>
   StatefulSetComplete
     \<lparr>Generation = 1,
      Spec = \<lparr>Replicas = Some 3,
              UpdateStrategy = \<lparr>Type = RollingUpdateStatefulSetStrategyType,
                                RollingUpdate = Some \<lparr>Partition = Some 1\<rparr>\<rparr>\<rparr>,
      Status = \<lparr>ObservedGeneration = 1, Replicas_status = 3, ReadyReplicas = 3, CurrentReplicas = 1,
                UpdatedReplicas = 2, CurrentRevision = ''v1'', UpdateRevision = ''v2''\<rparr>\<rparr>
     = Returned True"
  using partitioned_rollout_complete [of
     "\<lparr>Generation = 1,
      Spec = \<lparr>Replicas = Some 3,
              UpdateStrategy = \<lparr>Type = RollingUpdateStatefulSetStrategyType,
                                RollingUpdate = Some \<lparr>Partition = Some 1\<rparr>\<rparr>\<rparr>,
      Status = \<lparr>ObservedGeneration = 1, Replicas_status = 3, ReadyReplicas = 3, CurrentReplicas = 1,
                UpdatedReplicas = 2, CurrentRevision = ''v1'', UpdateRevision = ''v2''\<rparr>\<rparr>"
     3 "\<lparr>Partition = Some 1\<rparr>" 1]
  by (simp add: word_sless_alt)

text \<open>
  Without the condition on the observed and ready replicas the equivalence fails: the same
  snapshot with only two of its three replicas ready satisfies the three conditions on
  revisions, current and updated replicas, and is not complete.
\<close>

theorem partitioned_rollout_waits_for_ready_replicas:
  "StatefulSetComplete
     \<lparr>Generation = 1,
      Spec = \<lparr>Replicas = Some 3,
              UpdateStrategy = \<lparr>Type = RollingUpdateStatefulSetStrategyType,
                                RollingUpdate = Some \<lparr>Partition = Some 1\<rparr>\<rparr>\<rparr>,
      Status = \<lparr>ObservedGeneration = 1, Replicas_status = 3, ReadyReplicas = 2, CurrentReplicas = 1,
                UpdatedReplicas = 2, CurrentRevision = ''v1'', UpdateRevision = ''v2''\<rparr>\<rparr>
     = Returned False \<and>
   (0 :: int32) <s 1 \<and> ''v1'' \<noteq> ''v2'' \<and> (2 :: int32) = 3 - 1"
  by (simp add: StatefulSetComplete_def word_sless_alt
      RollingUpdateStatefulSetStrategyType_def OnDeleteStatefulSetStrategyType_def)

text \<open>
  Claim C7, with the conditions the code checks before it looks at the strategy. For a
  stateful set whose strategy type is neither \<^verbatim>\<open>RollingUpdate\<close> nor \<^verbatim>\<open>OnDelete\<close>,
  \<^verbatim>\<open>StatefulSetComplete\<close> behaves as it does for \<^verbatim>\<open>OnDelete\<close>: it returns true exactly when
  the observed generation is non-zero and equal to the generation and the desired replica
  count, if set, equals both the observed and the ready replicas. Revisions and the counts
  of current and updated replicas are not looked at.
\<close>

theorem unknown_strategy_like_on_delete:
  assumes "Type (UpdateStrategy (Spec sts)) \<noteq> RollingUpdateStatefulSetStrategyType"
    and "Type (UpdateStrategy (Spec sts)) \<noteq> OnDeleteStatefulSetStrategyType"
  shows "StatefulSetComplete sts =
           Returned (ObservedGeneration (Status sts) \<noteq> 0 \<and>
                     Generation sts = ObservedGeneration (Status sts) \<and>
                     (case Replicas (Spec sts) of
                        None \<Rightarrow> True
                      | Some desired \<Rightarrow> desired = Replicas_status (Status sts) \<and>
                                          desired = ReadyReplicas (Status sts))) \<and>
         StatefulSetComplete sts =
           StatefulSetComplete
             (sts\<lparr>Spec := (Spec sts)\<lparr>UpdateStrategy :=
                (UpdateStrategy (Spec sts))\<lparr>Type := OnDeleteStatefulSetStrategyType\<rparr>\<rparr>\<rparr>)"
  using assms
  by (auto simp: StatefulSetComplete_def split: option.splits)

text \<open>A strategy type \<^verbatim>\<open>Canary\<close>, in the middle of a revision change, generation current.\<close>

theorem unknown_strategy_like_on_delete_witness:
  "''Canary'' \<noteq> RollingUpdateStatefulSetStrategyType \<and>
   ''Canary'' \<noteq> OnDeleteStatefulSetStrategyType \<and>
   StatefulSetComplete
     \<lparr>Generation = 4,
      Spec = \<lparr>Replicas = Some 3, UpdateStrategy = \<lparr>Type = ''Canary'', RollingUpdate = None\<rparr>\<rparr>,
      Status = \<lparr>ObservedGeneration = 4, Replicas_status = 3, ReadyReplicas = 3, CurrentReplicas = 1,
                UpdatedReplicas = 2, CurrentRevision = ''v1'', UpdateRevision = ''v2''\<rparr>\<rparr>
     = Returned True"
  using unknown_strategy_like_on_delete [of
     "\<lparr>Generation = 4,
      Spec = \<lparr>Replicas = Some 3, UpdateStrategy = \<lparr>Type = ''Canary'', RollingUpdate = None\<rparr>\<rparr>,
      Status = \<lparr>ObservedGeneration = 4, Replicas_status = 3, ReadyReplicas = 3, CurrentReplicas = 1,
                UpdatedReplicas = 2, CurrentRevision = ''v1'', UpdateRevision = ''v2''\<rparr>\<rparr>"]
  by (simp add: RollingUpdateStatefulSetStrategyType_def OnDeleteStatefulSetStrategyType_def)

text \<open>
  An unknown strategy alone does not make a stateful set complete: with an observed
  generation behind the generation the answer is false.
\<close>

theorem unknown_strategy_stale_generation_incomplete:
  "''Canary'' \<noteq> RollingUpdateStatefulSetStrategyType \<and>
   ''Canary'' \<noteq> OnDeleteStatefulSetStrategyType \<and>
   StatefulSetComplete
     \<lparr>Generation = 2,
      Spec = \<lparr>Replicas = Some 3, UpdateStrategy = \<lparr>Type = ''Canary'', RollingUpdate = None\<rparr>\<rparr>,
      Status = \<lparr>ObservedGeneration = 1, Replicas_status = 3, ReadyReplicas = 3, CurrentReplicas = 3,
                UpdatedReplicas = 3, CurrentRevision = ''v1'', UpdateRevision = ''v1''\<rparr>\<rparr>
     = Returned False"
  by (simp add: StatefulSetComplete_def
      RollingUpdateStatefulSetStrategyType_def OnDeleteStatefulSetStrategyType_def)

section \<open>Messages of the status report are shown once\<close>

lemma progressLine_inject [simp]: "progressLine m = progressLine m' \<longleftrightarrow> m = m'"
  by (simp add: progressLine_def paintedLine_def)

lemma progressLine_not_painted:
  "c \<noteq> FgBlue \<Longrightarrow> paintedLine c text \<noteq> progressLine m"
  by (simp add: progressLine_def paintedLine_def)

lemma progressLine_not_header:
  "[Plain (glyph_tee @ '' ''), resource, Plain newline] \<noteq> progressLine m"
  by (simp add: progressLine_def paintedLine_def glyph_tee_def glyph_bar_def)

lemma hasShown_markShown:
  "hasShown (markShown shown name m) n m' \<longleftrightarrow> (n = name \<and> m' = m) \<or> hasShown shown n m'"
  by (auto simp: hasShown_def markShown_def split: option.splits)

lemma markShown_other: "n \<noteq> name \<Longrightarrow> markShown shown name m n = shown n"
  by (simp add: markShown_def split: option.splits)

lemma markShown_cong: "shown name = shown' name \<Longrightarrow> markShown shown name m name = markShown shown' name m name"
  by (simp add: markShown_def split: option.splits)

lemma hasShown_cong: "shown name = shown' name \<Longrightarrow> hasShown shown name m = hasShown shown' name m"
  by (simp add: hasShown_def)

lemma printFailedPods_no_progress: "progressLine m \<notin> set (printFailedPods pods)"
  by (induction pods rule: printFailedPods.induct)
    (auto simp: progressLine_not_painted [symmetric])

lemma printProgressing_keeps:
  "hasShown shown n m \<Longrightarrow> hasShown (fst (printProgressingConditions name conds shown)) n m"
  by (induction name conds shown rule: printProgressingConditions.induct)
    (auto simp: hasShown_markShown split: prod.splits)

lemma printProgressing_other:
  "n \<noteq> name \<Longrightarrow> fst (printProgressingConditions name conds shown) n = shown n"
  by (induction name conds shown rule: printProgressingConditions.induct)
    (auto simp: markShown_other split: prod.splits)

lemma printProgressing_cong:
  "shown name = shown' name \<Longrightarrow>
     snd (printProgressingConditions name conds shown) = snd (printProgressingConditions name conds shown') \<and>
     fst (printProgressingConditions name conds shown) name = fst (printProgressingConditions name conds shown') name"
proof (induction conds arbitrary: shown shown')
  case Nil
  then show ?case by simp
next
  case (Cons cond rest)
  from Cons.prems have h: "hasShown shown name (Message cond) = hasShown shown' name (Message cond)"
    by (rule hasShown_cong)
  from Cons.prems have m: "markShown shown name (Message cond) name = markShown shown' name (Message cond) name"
    by (rule markShown_cong)
  show ?case
    using Cons.IH [of shown shown', OF Cons.prems]
      Cons.IH [of "markShown shown name (Message cond)" "markShown shown' name (Message cond)", OF m] h
    by (simp add: case_prod_unfold)
qed

lemma printProgressing_shown_silent:
  "hasShown shown name m \<Longrightarrow> progressLine m \<notin> set (snd (printProgressingConditions name conds shown))"
proof (induction name conds shown rule: printProgressingConditions.induct)
  case (1 name shown)
  then show ?case by simp
next
  case (2 name cond rest shown)
  then show ?case
    by (auto simp: hasShown_markShown split: prod.splits)
qed

lemma printProgressing_new_once:
  "cond \<in> set conds \<Longrightarrow> IsSatisfied cond \<Longrightarrow> \<not> hasShown shown name (Message cond) \<Longrightarrow>
     count_list (snd (printProgressingConditions name conds shown)) (progressLine (Message cond)) = 1 \<and>
     hasShown (fst (printProgressingConditions name conds shown)) name (Message cond)"
proof (induction name conds shown rule: printProgressingConditions.induct)
  case (1 name shown)
  then show ?case by simp
next
  case (2 name c rest shown)
  show ?case
  proof (cases "IsSatisfied c \<and> \<not> hasShown shown name (Message c)")
    case printed: True
    show ?thesis
    proof (cases "Message c = Message cond")
      case True
      have now: "hasShown (markShown shown name (Message c)) name (Message cond)"
        by (simp add: hasShown_markShown True)
      from printProgressing_shown_silent [OF now, of rest]
      have "count_list (snd (printProgressingConditions name rest (markShown shown name (Message c))))
              (progressLine (Message cond)) = 0"
        by (simp add: count_list_0_iff)
      moreover from printProgressing_keeps [OF now, of name rest]
      have "hasShown (fst (printProgressingConditions name rest (markShown shown name (Message c)))) name (Message cond)" .
      ultimately show ?thesis
        using printed True by (simp add: case_prod_unfold)
    next
      case False
      with "2.prems" have in_rest: "cond \<in> set rest" by auto
      from False "2.prems" have still: "\<not> hasShown (markShown shown name (Message c)) name (Message cond)"
        by (simp add: hasShown_markShown)
      from "2.IH"(1) [OF _ _ in_rest "2.prems"(2) still] printed False
      show ?thesis by (simp add: case_prod_unfold)
    qed
  next
    case skipped: False
    with "2.prems" have in_rest: "cond \<in> set rest" by auto
    from skipped have "printProgressingConditions name (c # rest) shown = printProgressingConditions name rest shown"
      by auto
    moreover have "count_list (snd (printProgressingConditions name rest shown)) (progressLine (Message cond)) = 1 \<and>
      hasShown (fst (printProgressingConditions name rest shown)) name (Message cond)"
    proof (cases "IsSatisfied c")
      case True
      with skipped have "hasShown shown name (Message c)" by simp
      with "2.IH"(2) [OF True _ in_rest "2.prems"(2,3)] show ?thesis by simp
    next
      case False
      with "2.IH"(3) [OF False in_rest "2.prems"(2,3)] show ?thesis by simp
    qed
    ultimately show ?thesis by simp
  qed
qed

lemma printReady_keeps:
  "hasShown shown n m \<Longrightarrow> hasShown (fst (printReadyConditions name conds shown)) n m"
  by (induction name conds shown rule: printReadyConditions.induct)
    (auto simp: hasShown_markShown split: prod.splits)

lemma printReady_other:
  "n \<noteq> name \<Longrightarrow> fst (printReadyConditions name conds shown) n = shown n"
  by (induction name conds shown rule: printReadyConditions.induct)
    (auto simp: markShown_other split: prod.splits)

lemma printReady_cong:
  "shown name = shown' name \<Longrightarrow>
     snd (printReadyConditions name conds shown) = snd (printReadyConditions name conds shown') \<and>
     fst (printReadyConditions name conds shown) name = fst (printReadyConditions name conds shown') name"
proof (induction conds arbitrary: shown shown')
  case Nil
  then show ?case by simp
next
  case (Cons cond rest)
  from Cons.prems have h: "hasShown shown name (Message cond) = hasShown shown' name (Message cond)"
    by (rule hasShown_cong)
  from Cons.prems have m: "markShown shown name (Message cond) name = markShown shown' name (Message cond) name"
    by (rule markShown_cong)
  show ?case
    using Cons.IH [of shown shown', OF Cons.prems]
      Cons.IH [of "markShown shown name (Message cond)" "markShown shown' name (Message cond)", OF m] h
    by (simp add: case_prod_unfold)
qed

lemma printReady_no_progress:
  "progressLine m \<notin> set (snd (printReadyConditions name conds shown))"
  by (induction name conds shown rule: printReadyConditions.induct)
    (auto simp: progressLine_not_painted [symmetric] split: prod.splits)

text \<open>The record of shown messages once the report has made sure the entry exists.\<close>

lemma hasShown_ensure:
  "hasShown (if shown name = None then shown(name \<mapsto> {}) else shown) n m = hasShown shown n m"
  by (simp add: hasShown_def)

lemma printDeploymentStatus_other:
  "n \<noteq> name \<Longrightarrow> fst (printDeploymentStatus specs name status shown) n = shown n"
  by (simp add: printDeploymentStatus_def Let_def case_prod_unfold printReady_other
      printProgressing_other)

lemma printDeploymentStatus_keeps:
  assumes "hasShown shown n m"
  shows "hasShown (fst (printDeploymentStatus specs name status shown)) n m"
proof -
  let ?shown = "if shown name = None then shown(name \<mapsto> {}) else shown"
  from assms have "hasShown ?shown n m" by (simp only: hasShown_ensure)
  then show ?thesis
    by (simp add: printDeploymentStatus_def Let_def case_prod_unfold printReady_keeps
        printProgressing_keeps del: hasShown_ensure)
qed

lemma printDeploymentStatus_cong:
  assumes "shown name = shown' name"
  shows "snd (printDeploymentStatus specs name status shown) =
           snd (printDeploymentStatus specs name status shown') \<and>
         fst (printDeploymentStatus specs name status shown) name =
           fst (printDeploymentStatus specs name status shown') name"
proof -
  let ?e = "\<lambda>shown. if shown name = None then shown(name \<mapsto> {}) else shown"
  let ?p = "\<lambda>shown. printProgressingConditions name (ProgressingConditions (ReadyStatus status)) (?e shown)"
  from assms have e: "?e shown name = ?e shown' name" by simp
  note p = printProgressing_cong [where shown = "?e shown" and shown' = "?e shown'" and name = name
      and conds = "ProgressingConditions (ReadyStatus status)", OF e]
  from p have "fst (?p shown) name = fst (?p shown') name" by blast
  note r = printReady_cong [where shown = "fst (?p shown)" and shown' = "fst (?p shown')"
      and name = name and conds = "ReadyConditions (ReadyStatus status)", OF this]
  show ?thesis
    using e p r by (simp add: printDeploymentStatus_def Let_def case_prod_unfold)
qed

lemma printDeploymentStatus_shown_silent:
  assumes "hasShown shown name m"
  shows "progressLine m \<notin> set (snd (printDeploymentStatus specs name status shown))"
proof -
  let ?shown = "if shown name = None then shown(name \<mapsto> {}) else shown"
  from assms have "hasShown ?shown name m" by (simp only: hasShown_ensure)
  from printProgressing_shown_silent [OF this]
  show ?thesis
    by (simp add: printDeploymentStatus_def Let_def case_prod_unfold printReady_no_progress
        printFailedPods_no_progress progressLine_not_header [symmetric]
        progressLine_not_painted [symmetric])
qed

lemma printDeploymentStatus_new_once:
  assumes "\<not> IsFailed_deploy status"
    and "cond \<in> set (ProgressingConditions (ReadyStatus status))"
    and "IsSatisfied cond"
    and "\<not> hasShown shown name (Message cond)"
  shows "count_list (snd (printDeploymentStatus specs name status shown)) (progressLine (Message cond)) = 1 \<and>
         hasShown (fst (printDeploymentStatus specs name status shown)) name (Message cond)"
proof -
  let ?shown = "if shown name = None then shown(name \<mapsto> {}) else shown"
  let ?p = "printProgressingConditions name (ProgressingConditions (ReadyStatus status)) ?shown"
  let ?r = "printReadyConditions name (ReadyConditions (ReadyStatus status)) (fst ?p)"
  from assms(4) have "\<not> hasShown ?shown name (Message cond)" by (simp add: hasShown_ensure)
  from printProgressing_new_once [OF assms(2,3) this]
  have one: "count_list (snd ?p) (progressLine (Message cond)) = 1"
    and rec: "hasShown (fst ?p) name (Message cond)" by blast+
  have "count_list (snd ?r) (progressLine (Message cond)) = 0"
    "count_list (printFailedPods (Pods status)) (progressLine (Message cond)) = 0"
    by (simp_all add: count_list_0_iff printReady_no_progress printFailedPods_no_progress)
  with one printReady_keeps [OF rec, of name "ReadyConditions (ReadyStatus status)"] assms(1)
  show ?thesis
    by (simp add: printDeploymentStatus_def Let_def case_prod_unfold
        progressLine_not_header progressLine_not_painted)
qed

lemma printDeploymentsStatuses_other:
  "name \<notin> fst ` set statuses \<Longrightarrow>
     fst (printDeploymentsStatuses specs statuses shown) name = shown name"
proof (induction specs statuses shown rule: printDeploymentsStatuses.induct)
  case (1 specs shown)
  then show ?case by simp
next
  case (2 specs n status rest shown)
  from "2.prems" have "name \<noteq> n" and rest: "name \<notin> fst ` set rest" by auto
  then have "fst (printDeploymentStatus specs n status shown) name = shown name"
    by (simp add: printDeploymentStatus_other)
  with "2.IH" [OF prod.collapse rest] show ?case
    by (simp add: case_prod_unfold)
qed

lemma printDeploymentsStatuses_keeps:
  "hasShown shown n m \<Longrightarrow> hasShown (fst (printDeploymentsStatuses specs statuses shown)) n m"
proof (induction specs statuses shown rule: printDeploymentsStatuses.induct)
  case (1 specs shown)
  then show ?case by simp
next
  case (2 specs name status rest shown)
  from "2.prems" have "hasShown (fst (printDeploymentStatus specs name status shown)) n m"
    by (rule printDeploymentStatus_keeps)
  with "2.IH" [OF prod.collapse] show ?case
    by (simp add: case_prod_unfold)
qed

lemma printDeploymentsStatuses_block:
  "distinct (map fst statuses) \<Longrightarrow> map_of statuses name = Some status \<Longrightarrow>
     (\<exists>pre post. snd (printDeploymentsStatuses specs statuses shown) =
        pre @ snd (printDeploymentStatus specs name status shown) @ post) \<and>
     fst (printDeploymentsStatuses specs statuses shown) name =
       fst (printDeploymentStatus specs name status shown) name"
proof (induction statuses arbitrary: shown)
  case Nil
  then show ?case by simp
next
  case (Cons entry rest)
  obtain n s where entry: "entry = (n, s)" by (cases entry)
  let ?shown1 = "fst (printDeploymentStatus specs n s shown)"
  let ?out1 = "snd (printDeploymentStatus specs n s shown)"
  have unfold: "printDeploymentsStatuses specs (entry # rest) shown =
      (fst (printDeploymentsStatuses specs rest ?shown1),
       ?out1 @ snd (printDeploymentsStatuses specs rest ?shown1))"
    by (simp add: entry case_prod_unfold)
  show ?case
  proof (cases "n = name")
    case True
    with Cons.prems entry have s: "s = status" and "name \<notin> fst ` set rest" by auto
    then have "fst (printDeploymentsStatuses specs rest ?shown1) name = ?shown1 name"
      by (simp add: printDeploymentsStatuses_other)
    moreover have "?out1 @ snd (printDeploymentsStatuses specs rest ?shown1) =
        [] @ ?out1 @ snd (printDeploymentsStatuses specs rest ?shown1)" by simp
    ultimately show ?thesis
      unfolding unfold using True s by (simp del: append_Nil) blast
  next
    case False
    with Cons.prems entry have d: "distinct (map fst rest)" and m: "map_of rest name = Some status"
      by auto
    from False have "?shown1 name = shown name"
      by (simp add: printDeploymentStatus_other)
    note same = printDeploymentStatus_cong [where shown = ?shown1 and shown' = shown
        and name = name and specs = specs and status = status, OF this]
    from Cons.IH [OF d m, of ?shown1] obtain pre post where
      out: "snd (printDeploymentsStatuses specs rest ?shown1) =
              pre @ snd (printDeploymentStatus specs name status ?shown1) @ post"
      and tab: "fst (printDeploymentsStatuses specs rest ?shown1) name =
              fst (printDeploymentStatus specs name status ?shown1) name"
      by blast
    from out same have "?out1 @ snd (printDeploymentsStatuses specs rest ?shown1) =
        (?out1 @ pre) @ snd (printDeploymentStatus specs name status shown) @ post"
      by simp
    with tab same show ?thesis
      unfolding unfold by (simp del: append_assoc) metis
  qed
qed

text \<open>
  Claim C8, for a deployment whose status is not marked failed when the frame is
  rendered. The part of a frame that is about deployments is made of one block per
  deployment status. Take two frames, the second starting from a record of shown
  messages that still holds what the first left for the deployment; every frame only
  adds to the record, so this is any later frame of the run. If the status of a
  deployment in the first frame is not failed and has a satisfied progressing condition
  whose message was not yet recorded for that deployment, then the deployment's block in
  the first frame holds the line of that message exactly once and the message is
  recorded; the deployment's block in the second frame does not hold the line, whatever
  the deployment's status then is, and the message stays recorded. The record is keyed
  by the deployment's name and the exact text of the message.
\<close>

theorem progress_message_printed_once:
  assumes first: "PrintStatusReport_deployments mt = (mt_first, frame_first)"
    and later: "\<forall>m. hasShown (ShownDeploymentMessages mt_first) name m \<longrightarrow>
                    hasShown (ShownDeploymentMessages mt_later) name m"
    and second: "PrintStatusReport_deployments mt_later = (mt_last, frame_later)"
    and distinct: "distinct (map fst (DeploymentsStatuses mt))"
      "distinct (map fst (DeploymentsStatuses mt_later))"
    and status_first: "map_of (DeploymentsStatuses mt) name = Some status_first"
    and status_later: "map_of (DeploymentsStatuses mt_later) name = Some status_later"
    and not_failed: "\<not> IsFailed_deploy status_first"
    and cond: "cond \<in> set (ProgressingConditions (ReadyStatus status_first))" "IsSatisfied cond"
    and new: "\<not> hasShown (ShownDeploymentMessages mt) name (Message cond)"
  shows "\<exists>pre_first block_first post_first pre_later block_later post_later.
           frame_first = pre_first @ block_first @ post_first \<and>
           block_first = snd (printDeploymentStatus (DeploymentsSpecs mt) name status_first
                           (ShownDeploymentMessages mt)) \<and>
           frame_later = pre_later @ block_later @ post_later \<and>
           block_later = snd (printDeploymentStatus (DeploymentsSpecs mt_later) name status_later
                           (ShownDeploymentMessages mt_later)) \<and>
           count_list block_first (progressLine (Message cond)) = 1 \<and>
           progressLine (Message cond) \<notin> set block_later \<and>
           hasShown (ShownDeploymentMessages mt_first) name (Message cond) \<and>
           hasShown (ShownDeploymentMessages mt_last) name (Message cond) \<and>
           (\<forall>n m. hasShown (ShownDeploymentMessages mt) n m \<longrightarrow>
                    hasShown (ShownDeploymentMessages mt_first) n m) \<and>
           (\<forall>n m. hasShown (ShownDeploymentMessages mt_later) n m \<longrightarrow>
                    hasShown (ShownDeploymentMessages mt_last) n m)"
proof -
  let ?m = "Message cond"
  let ?loop1 = "printDeploymentsStatuses (DeploymentsSpecs mt) (DeploymentsStatuses mt)
                  (ShownDeploymentMessages mt)"
  let ?loop2 = "printDeploymentsStatuses (DeploymentsSpecs mt_later) (DeploymentsStatuses mt_later)
                  (ShownDeploymentMessages mt_later)"
  let ?block1 = "snd (printDeploymentStatus (DeploymentsSpecs mt) name status_first (ShownDeploymentMessages mt))"
  let ?block2 = "snd (printDeploymentStatus (DeploymentsSpecs mt_later) name status_later (ShownDeploymentMessages mt_later))"
  from first have f1: "frame_first = snd ?loop1" and s1: "ShownDeploymentMessages mt_first = fst ?loop1"
    by (auto simp: PrintStatusReport_deployments_def case_prod_unfold)
  from second have f2: "frame_later = snd ?loop2" and s2: "ShownDeploymentMessages mt_last = fst ?loop2"
    by (auto simp: PrintStatusReport_deployments_def case_prod_unfold)
  from printDeploymentsStatuses_block [OF distinct(1) status_first] obtain pre_first post_first where
    d1: "frame_first = pre_first @ ?block1 @ post_first"
    and t1: "fst ?loop1 name = fst (printDeploymentStatus (DeploymentsSpecs mt) name status_first
                                      (ShownDeploymentMessages mt)) name"
    unfolding f1 by blast
  from printDeploymentsStatuses_block [OF distinct(2) status_later] obtain pre_later post_later where
    d2: "frame_later = pre_later @ ?block2 @ post_later"
    unfolding f2 by blast
  from printDeploymentStatus_new_once [OF not_failed cond new]
  have once: "count_list ?block1 (progressLine ?m) = 1"
    and rec: "hasShown (fst (printDeploymentStatus (DeploymentsSpecs mt) name status_first
                              (ShownDeploymentMessages mt))) name ?m"
    by blast+
  from rec t1 have shown1: "hasShown (ShownDeploymentMessages mt_first) name ?m"
    by (simp add: s1 hasShown_def)
  with later have shown1': "hasShown (ShownDeploymentMessages mt_later) name ?m"
    by blast
  then have silent: "progressLine ?m \<notin> set ?block2"
    by (rule printDeploymentStatus_shown_silent)
  from shown1' have shown2: "hasShown (ShownDeploymentMessages mt_last) name ?m"
    unfolding s2 by (rule printDeploymentsStatuses_keeps)
  have grows1: "\<forall>n m. hasShown (ShownDeploymentMessages mt) n m \<longrightarrow>
                    hasShown (ShownDeploymentMessages mt_first) n m"
    unfolding s1 by (simp add: printDeploymentsStatuses_keeps)
  have grows2: "\<forall>n m. hasShown (ShownDeploymentMessages mt_later) n m \<longrightarrow>
                    hasShown (ShownDeploymentMessages mt_last) n m"
    unfolding s2 by (simp add: printDeploymentsStatuses_keeps)
  from d1 d2 once silent shown1 shown2 grows1 grows2 show ?thesis by blast
qed

text \<open>
  At a deployment \<^verbatim>\<open>web\<close> that is rolling out: the first frame prints the line, the next
  frame, of the same status, prints the header only.
\<close>

theorem progress_message_printed_once_witness:
  "\<not> hasShown Map.empty ''web'' ''rolling out'' \<and>
   snd (PrintStatusReport_deployments
     \<lparr>DeploymentsSpecs =
        [(''web'',
          \<lparr>ResourceName = ''web'', Namespace = ''default'', FailMode = FailWholeDeployProcessImmediately,
          AllowFailuresCount = Some 1, FailureThresholdSeconds = Some 0, LogWatchRegex = None,
          LogWatchRegexByContainerName = [], ShowLogsUntil = PodIsReady, SkipLogsForContainers = [],
          ShowLogsOnlyForContainers = []\<rparr>)],
      TrackingPods = [], TrackingDeployments = [(''web'', zeroResourceState)],
      DeploymentsStatuses =
        [(''web'',
          \<lparr>ReadyStatus =
          \<lparr>IsReady = False,
           ProgressingConditions = [\<lparr>Message = ''rolling out'', IsSatisfied = True\<rparr>],
           ReadyConditions = []\<rparr>,
        Pods = [], IsFailed_deploy = False, FailedReason_deploy = []\<rparr>)],
      ShownDeploymentMessages = Map.empty,
      TrackingStatefulSets = [], TrackingDaemonSets = [], TrackingJobs = []\<rparr>)
     = [[Plain (glyph_tee @ '' ''), Painted FgYellow ''deploy/web'', Plain newline],
        progressLine ''rolling out''] \<and>
   snd (PrintStatusReport_deployments (fst (PrintStatusReport_deployments
     \<lparr>DeploymentsSpecs =
        [(''web'',
          \<lparr>ResourceName = ''web'', Namespace = ''default'', FailMode = FailWholeDeployProcessImmediately,
          AllowFailuresCount = Some 1, FailureThresholdSeconds = Some 0, LogWatchRegex = None,
          LogWatchRegexByContainerName = [], ShowLogsUntil = PodIsReady, SkipLogsForContainers = [],
          ShowLogsOnlyForContainers = []\<rparr>)],
      TrackingPods = [], TrackingDeployments = [(''web'', zeroResourceState)],
      DeploymentsStatuses =
        [(''web'',
          \<lparr>ReadyStatus =
          \<lparr>IsReady = False,
           ProgressingConditions = [\<lparr>Message = ''rolling out'', IsSatisfied = True\<rparr>],
           ReadyConditions = []\<rparr>,
        Pods = [], IsFailed_deploy = False, FailedReason_deploy = []\<rparr>)],
      ShownDeploymentMessages = Map.empty,
      TrackingStatefulSets = [], TrackingDaemonSets = [], TrackingJobs = []\<rparr>)))
     = [[Plain (glyph_tee @ '' ''), Painted FgYellow ''deploy/web'', Plain newline]]"
  using progress_message_printed_once [where
     mt = "\<lparr>DeploymentsSpecs =
        [(''web'',
          \<lparr>ResourceName = ''web'', Namespace = ''default'', FailMode = FailWholeDeployProcessImmediately,
          AllowFailuresCount = Some 1, FailureThresholdSeconds = Some 0, LogWatchRegex = None,
          LogWatchRegexByContainerName = [], ShowLogsUntil = PodIsReady, SkipLogsForContainers = [],
          ShowLogsOnlyForContainers = []\<rparr>)],
      TrackingPods = [], TrackingDeployments = [(''web'', zeroResourceState)],
      DeploymentsStatuses =
        [(''web'',
          \<lparr>ReadyStatus =
          \<lparr>IsReady = False,
           ProgressingConditions = [\<lparr>Message = ''rolling out'', IsSatisfied = True\<rparr>],
           ReadyConditions = []\<rparr>,
        Pods = [], IsFailed_deploy = False, FailedReason_deploy = []\<rparr>)],
      ShownDeploymentMessages = Map.empty,
      TrackingStatefulSets = [], TrackingDaemonSets = [], TrackingJobs = []\<rparr>"
     and mt_first = "fst (PrintStatusReport_deployments
     \<lparr>DeploymentsSpecs =
        [(''web'',
          \<lparr>ResourceName = ''web'', Namespace = ''default'', FailMode = FailWholeDeployProcessImmediately,
          AllowFailuresCount = Some 1, FailureThresholdSeconds = Some 0, LogWatchRegex = None,
          LogWatchRegexByContainerName = [], ShowLogsUntil = PodIsReady, SkipLogsForContainers = [],
          ShowLogsOnlyForContainers = []\<rparr>)],
      TrackingPods = [], TrackingDeployments = [(''web'', zeroResourceState)],
      DeploymentsStatuses =
        [(''web'',
          \<lparr>ReadyStatus =
          \<lparr>IsReady = False,
           ProgressingConditions = [\<lparr>Message = ''rolling out'', IsSatisfied = True\<rparr>],
           ReadyConditions = []\<rparr>,
        Pods = [], IsFailed_deploy = False, FailedReason_deploy = []\<rparr>)],
      ShownDeploymentMessages = Map.empty,
      TrackingStatefulSets = [], TrackingDaemonSets = [], TrackingJobs = []\<rparr>)"
     and frame_first = "snd (PrintStatusReport_deployments
     \<lparr>DeploymentsSpecs =
        [(''web'',
          \<lparr>ResourceName = ''web'', Namespace = ''default'', FailMode = FailWholeDeployProcessImmediately,
          AllowFailuresCount = Some 1, FailureThresholdSeconds = Some 0, LogWatchRegex = None,
          LogWatchRegexByContainerName = [], ShowLogsUntil = PodIsReady, SkipLogsForContainers = [],
          ShowLogsOnlyForContainers = []\<rparr>)],
      TrackingPods = [], TrackingDeployments = [(''web'', zeroResourceState)],
      DeploymentsStatuses =
        [(''web'',
          \<lparr>ReadyStatus =
          \<lparr>IsReady = False,
           ProgressingConditions = [\<lparr>Message = ''rolling out'', IsSatisfied = True\<rparr>],
           ReadyConditions = []\<rparr>,
        Pods = [], IsFailed_deploy = False, FailedReason_deploy = []\<rparr>)],
      ShownDeploymentMessages = Map.empty,
      TrackingStatefulSets = [], TrackingDaemonSets = [], TrackingJobs = []\<rparr>)"
     and mt_later = "fst (PrintStatusReport_deployments
     \<lparr>DeploymentsSpecs =
        [(''web'',
          \<lparr>ResourceName = ''web'', Namespace = ''default'', FailMode = FailWholeDeployProcessImmediately,
          AllowFailuresCount = Some 1, FailureThresholdSeconds = Some 0, LogWatchRegex = None,
          LogWatchRegexByContainerName = [], ShowLogsUntil = PodIsReady, SkipLogsForContainers = [],
          ShowLogsOnlyForContainers = []\<rparr>)],
      TrackingPods = [], TrackingDeployments = [(''web'', zeroResourceState)],
      DeploymentsStatuses =
        [(''web'',
          \<lparr>ReadyStatus =
          \<lparr>IsReady = False,
           ProgressingConditions = [\<lparr>Message = ''rolling out'', IsSatisfied = True\<rparr>],
           ReadyConditions = []\<rparr>,
        Pods = [], IsFailed_deploy = False, FailedReason_deploy = []\<rparr>)],
      ShownDeploymentMessages = Map.empty,
      TrackingStatefulSets = [], TrackingDaemonSets = [], TrackingJobs = []\<rparr>)"
     and mt_last = "fst (PrintStatusReport_deployments (fst (PrintStatusReport_deployments
     \<lparr>DeploymentsSpecs =
        [(''web'',
          \<lparr>ResourceName = ''web'', Namespace = ''default'', FailMode = FailWholeDeployProcessImmediately,
          AllowFailuresCount = Some 1, FailureThresholdSeconds = Some 0, LogWatchRegex = None,
          LogWatchRegexByContainerName = [], ShowLogsUntil = PodIsReady, SkipLogsForContainers = [],
          ShowLogsOnlyForContainers = []\<rparr>)],
      TrackingPods = [], TrackingDeployments = [(''web'', zeroResourceState)],
      DeploymentsStatuses =
        [(''web'',
          \<lparr>ReadyStatus =
          \<lparr>IsReady = False,
           ProgressingConditions = [\<lparr>Message = ''rolling out'', IsSatisfied = True\<rparr>],
           ReadyConditions = []\<rparr>,
        Pods = [], IsFailed_deploy = False, FailedReason_deploy = []\<rparr>)],
      ShownDeploymentMessages = Map.empty,
      TrackingStatefulSets = [], TrackingDaemonSets = [], TrackingJobs = []\<rparr>)))"
     and frame_later = "snd (PrintStatusReport_deployments (fst (PrintStatusReport_deployments
     \<lparr>DeploymentsSpecs =
        [(''web'',
          \<lparr>ResourceName = ''web'', Namespace = ''default'', FailMode = FailWholeDeployProcessImmediately,
          AllowFailuresCount = Some 1, FailureThresholdSeconds = Some 0, LogWatchRegex = None,
          LogWatchRegexByContainerName = [], ShowLogsUntil = PodIsReady, SkipLogsForContainers = [],
          ShowLogsOnlyForContainers = []\<rparr>)],
      TrackingPods = [], TrackingDeployments = [(''web'', zeroResourceState)],
      DeploymentsStatuses =
        [(''web'',
          \<lparr>ReadyStatus =
          \<lparr>IsReady = False,
           ProgressingConditions = [\<lparr>Message = ''rolling out'', IsSatisfied = True\<rparr>],
           ReadyConditions = []\<rparr>,
        Pods = [], IsFailed_deploy = False, FailedReason_deploy = []\<rparr>)],
      ShownDeploymentMessages = Map.empty,
      TrackingStatefulSets = [], TrackingDaemonSets = [], TrackingJobs = []\<rparr>)))"
     and name = "''web''"
     and status_first = "\<lparr>ReadyStatus =
          \<lparr>IsReady = False,
           ProgressingConditions = [\<lparr>Message = ''rolling out'', IsSatisfied = True\<rparr>],
           ReadyConditions = []\<rparr>,
        Pods = [], IsFailed_deploy = False, FailedReason_deploy = []\<rparr>"
     and status_later = "\<lparr>ReadyStatus =
          \<lparr>IsReady = False,
           ProgressingConditions = [\<lparr>Message = ''rolling out'', IsSatisfied = True\<rparr>],
           ReadyConditions = []\<rparr>,
        Pods = [], IsFailed_deploy = False, FailedReason_deploy = []\<rparr>"
     and cond = "\<lparr>Message = ''rolling out'', IsSatisfied = True\<rparr>"]
  by (simp add: PrintStatusReport_deployments_def printDeploymentStatus_def hasShown_def markShown_def
      deploymentResource_def)

text \<open>
  The claim as it was stated does not hold of a deployment whose status is marked failed:
  its block shows the failure and none of the progressing conditions, although the message
  is that of a satisfied progressing condition and has not been shown before.
\<close>

theorem failed_deployment_prints_no_progress_line:
  "\<not> hasShown Map.empty ''web'' ''rolling out'' \<and>
   snd (PrintStatusReport_deployments
     \<lparr>DeploymentsSpecs =
        [(''web'',
          \<lparr>ResourceName = ''web'', Namespace = ''default'', FailMode = FailWholeDeployProcessImmediately,
          AllowFailuresCount = Some 1, FailureThresholdSeconds = Some 0, LogWatchRegex = None,
          LogWatchRegexByContainerName = [], ShowLogsUntil = PodIsReady, SkipLogsForContainers = [],
          ShowLogsOnlyForContainers = []\<rparr>)],
      TrackingPods = [], TrackingDeployments = [(''web'', zeroResourceState)],
      DeploymentsStatuses =
        [(''web'',
          \<lparr>ReadyStatus =
          \<lparr>IsReady = False,
           ProgressingConditions = [\<lparr>Message = ''rolling out'', IsSatisfied = True\<rparr>],
           ReadyConditions = []\<rparr>,
        Pods = [], IsFailed_deploy = True, FailedReason_deploy = ''crash loop''\<rparr>)],
      ShownDeploymentMessages = Map.empty,
      TrackingStatefulSets = [], TrackingDaemonSets = [], TrackingJobs = []\<rparr>)
     = [[Plain (glyph_tee @ '' ''), Painted FgRed ''deploy/web'', Plain newline],
        paintedLine FgRed (glyph_cross @ '' crash loop'')] \<and>
   progressLine ''rolling out'' \<notin>
     set [[Plain (glyph_tee @ '' ''), Painted FgRed ''deploy/web'', Plain newline],
          paintedLine FgRed (glyph_cross @ '' crash loop'')]"
  by (simp add: PrintStatusReport_deployments_def printDeploymentStatus_def hasShown_def
      deploymentResource_def progressLine_def paintedLine_def glyph_tee_def glyph_bar_def)

section \<open>Defaults of a tracking spec\<close>

lemma setDefaultSpecValues_alt:
  "setDefaultSpecValues spec =
     spec\<lparr>FailMode := (if FailMode spec = [] then FailWholeDeployProcessImmediately else FailMode spec),
          AllowFailuresCount := (case AllowFailuresCount spec of None \<Rightarrow> Some 1 | Some n \<Rightarrow> Some n),
          FailureThresholdSeconds :=
            (case FailureThresholdSeconds spec of None \<Rightarrow> Some 0 | Some n \<Rightarrow> Some n),
          ShowLogsUntil := (if ShowLogsUntil spec = [] then PodIsReady else ShowLogsUntil spec)\<rparr>"
proof (cases "FailMode spec = []"; cases "AllowFailuresCount spec"; cases "FailureThresholdSeconds spec";
    cases "ShowLogsUntil spec = []")
qed (simp_all add: setDefaultSpecValues_def)

lemma default_constants_nonempty:
  "FailWholeDeployProcessImmediately \<noteq> []" "PodIsReady \<noteq> []"
  by (simp_all add: FailWholeDeployProcessImmediately_def PodIsReady_def)

text \<open>
  Claim C9. \<^verbatim>\<open>setDefaultSpecValues\<close> fills the four optional fields where they are absent:
  an empty fail mode becomes \<open>FailWholeDeployProcessImmediately\<close>, a nil
  \<open>AllowFailuresCount\<close> becomes 1, a nil \<open>FailureThresholdSeconds\<close> becomes 0, an empty
  \<open>ShowLogsUntil\<close> becomes \<open>PodIsReady\<close>. A field that is present keeps its value, the six
  other fields are untouched, and normalizing a normalized spec changes nothing. The
  function has no error path: it returns a spec for every spec.
\<close>

theorem setDefaultSpecValues_fills_defaults:
  "FailMode (setDefaultSpecValues spec) =
     (if FailMode spec = [] then FailWholeDeployProcessImmediately else FailMode spec) \<and>
   AllowFailuresCount (setDefaultSpecValues spec) =
     (case AllowFailuresCount spec of None \<Rightarrow> Some 1 | Some n \<Rightarrow> Some n) \<and>
   FailureThresholdSeconds (setDefaultSpecValues spec) =
     (case FailureThresholdSeconds spec of None \<Rightarrow> Some 0 | Some n \<Rightarrow> Some n) \<and>
   ShowLogsUntil (setDefaultSpecValues spec) =
     (if ShowLogsUntil spec = [] then PodIsReady else ShowLogsUntil spec) \<and>
   ResourceName (setDefaultSpecValues spec) = ResourceName spec \<and>
   Namespace (setDefaultSpecValues spec) = Namespace spec \<and>
   LogWatchRegex (setDefaultSpecValues spec) = LogWatchRegex spec \<and>
   LogWatchRegexByContainerName (setDefaultSpecValues spec) = LogWatchRegexByContainerName spec \<and>
   SkipLogsForContainers (setDefaultSpecValues spec) = SkipLogsForContainers spec \<and>
   ShowLogsOnlyForContainers (setDefaultSpecValues spec) = ShowLogsOnlyForContainers spec \<and>
   setDefaultSpecValues (setDefaultSpecValues spec) = setDefaultSpecValues spec"
proof -
  have idem: "setDefaultSpecValues (setDefaultSpecValues spec) = setDefaultSpecValues spec"
  proof (cases "FailMode spec = []"; cases "AllowFailuresCount spec";
      cases "FailureThresholdSeconds spec"; cases "ShowLogsUntil spec = []")
  qed (simp_all add: setDefaultSpecValues_alt default_constants_nonempty)
  show ?thesis
    unfolding idem by (simp add: setDefaultSpecValues_alt)
qed

text \<open>A spec that gives a name only, and a spec that gives every optional field.\<close>

theorem setDefaultSpecValues_fills_defaults_witness:
  "setDefaultSpecValues
     \<lparr>ResourceName = ''web'', Namespace = ''prod'', FailMode = [], AllowFailuresCount = None,
      FailureThresholdSeconds = None, LogWatchRegex = None, LogWatchRegexByContainerName = [],
      ShowLogsUntil = [], SkipLogsForContainers = [''sidecar''], ShowLogsOnlyForContainers = []\<rparr>
   = \<lparr>ResourceName = ''web'', Namespace = ''prod'', FailMode = FailWholeDeployProcessImmediately,
      AllowFailuresCount = Some 1, FailureThresholdSeconds = Some 0, LogWatchRegex = None,
      LogWatchRegexByContainerName = [], ShowLogsUntil = PodIsReady,
      SkipLogsForContainers = [''sidecar''], ShowLogsOnlyForContainers = []\<rparr> \<and>
   setDefaultSpecValues
     \<lparr>ResourceName = ''db'', Namespace = ''prod'', FailMode = HopeUntilEndOfDeployProcess,
      AllowFailuresCount = Some 3, FailureThresholdSeconds = Some 60, LogWatchRegex = Some ''ERROR'',
      LogWatchRegexByContainerName = [], ShowLogsUntil = EndOfDeploy, SkipLogsForContainers = [],
      ShowLogsOnlyForContainers = [''main'']\<rparr>
   = \<lparr>ResourceName = ''db'', Namespace = ''prod'', FailMode = HopeUntilEndOfDeployProcess,
      AllowFailuresCount = Some 3, FailureThresholdSeconds = Some 60, LogWatchRegex = Some ''ERROR'',
      LogWatchRegexByContainerName = [], ShowLogsUntil = EndOfDeploy, SkipLogsForContainers = [],
      ShowLogsOnlyForContainers = [''main'']\<rparr>"
  using setDefaultSpecValues_fills_defaults [of
     "\<lparr>ResourceName = ''web'', Namespace = ''prod'', FailMode = [], AllowFailuresCount = None,
      FailureThresholdSeconds = None, LogWatchRegex = None, LogWatchRegexByContainerName = [],
      ShowLogsUntil = [], SkipLogsForContainers = [''sidecar''], ShowLogsOnlyForContainers = []\<rparr>"]
    setDefaultSpecValues_fills_defaults [of
     "\<lparr>ResourceName = ''db'', Namespace = ''prod'', FailMode = HopeUntilEndOfDeployProcess,
      AllowFailuresCount = Some 3, FailureThresholdSeconds = Some 60, LogWatchRegex = Some ''ERROR'',
      LogWatchRegexByContainerName = [], ShowLogsUntil = EndOfDeploy, SkipLogsForContainers = [],
      ShowLogsOnlyForContainers = [''main'']\<rparr>"]
  by (simp add: setDefaultSpecValues_def HopeUntilEndOfDeployProcess_def EndOfDeploy_def)

section \<open>A fail mode that is none of the three\<close>

text \<open>
  Claim C10. For a tracked resource whose spec carries a fail mode other than the three
  defined ones, \<^verbatim>\<open>handleResourceFailure\<close> panics with \<^verbatim>\<open>bad fail mode: <mode>\<close> exactly when
  the incremented failure count is beyond \<open>AllowFailuresCount\<close>. As long as the
  incremented count is at most \<open>AllowFailuresCount\<close>, the failure is absorbed like any
  other and \<^verbatim>\<open>nil\<close> is returned.
\<close>

theorem bad_fail_mode_panics_only_beyond_tolerance:
  assumes tracked: "map_of resourcesStates (ResourceName spec) = Some state"
    and allowed: "AllowFailuresCount spec = Some allowed"
    and bad: "FailMode spec \<noteq> FailWholeDeployProcessImmediately"
      "FailMode spec \<noteq> HopeUntilEndOfDeployProcess"
      "FailMode spec \<noteq> IgnoreAndContinueDeployProcess"
  shows "(FailuresCount state + 1 <=s allowed \<longrightarrow>
            handleResourceFailure resourcesStates spec reason =
              (AList.update (ResourceName spec)
                 (state\<lparr>FailuresCount := FailuresCount state + 1\<rparr>) resourcesStates,
               Returned None)) \<and>
         (\<not> FailuresCount state + 1 <=s allowed \<longrightarrow>
            handleResourceFailure resourcesStates spec reason =
              (AList.update (ResourceName spec)
                 (state\<lparr>FailuresCount := FailuresCount state + 1\<rparr>) resourcesStates,
               Panicked (PanicMessage (''bad fail mode: '' @ FailMode spec)))) \<and>
         ((\<exists>p. snd (handleResourceFailure resourcesStates spec reason) = Panicked p) \<longleftrightarrow>
            \<not> FailuresCount state + 1 <=s allowed)"
  using bad by (simp add: handleResourceFailure_tracked [OF tracked allowed] Let_def)

text \<open>
  At a fail mode \<^verbatim>\<open>Retry\<close> with one allowed failure: the first failure is absorbed, the
  second panics.
\<close>

theorem bad_fail_mode_panics_only_beyond_tolerance_witness:
  "map_of [(''web'', zeroResourceState)] ''web'' = Some zeroResourceState \<and>
   ''Retry'' \<noteq> FailWholeDeployProcessImmediately \<and>
   ''Retry'' \<noteq> HopeUntilEndOfDeployProcess \<and>
   ''Retry'' \<noteq> IgnoreAndContinueDeployProcess \<and>
   FailuresCount zeroResourceState + 1 <=s 1 \<and>
   handleResourceFailure [(''web'', zeroResourceState)]
     \<lparr>ResourceName = ''web'', Namespace = ''default'', FailMode = ''Retry'',
      AllowFailuresCount = Some 1, FailureThresholdSeconds = Some 0, LogWatchRegex = None,
      LogWatchRegexByContainerName = [], ShowLogsUntil = PodIsReady, SkipLogsForContainers = [],
      ShowLogsOnlyForContainers = []\<rparr> ''crash''
     = ([(''web'', \<lparr>IsFailed = False, LastFailureReason = [], FailuresCount = 1\<rparr>)], Returned None) \<and>
   \<not> FailuresCount (zeroResourceState\<lparr>FailuresCount := 1\<rparr>) + 1 <=s 1 \<and>
   handleResourceFailure [(''web'', zeroResourceState\<lparr>FailuresCount := 1\<rparr>)]
     \<lparr>ResourceName = ''web'', Namespace = ''default'', FailMode = ''Retry'',
      AllowFailuresCount = Some 1, FailureThresholdSeconds = Some 0, LogWatchRegex = None,
      LogWatchRegexByContainerName = [], ShowLogsUntil = PodIsReady, SkipLogsForContainers = [],
      ShowLogsOnlyForContainers = []\<rparr> ''crash''
     = ([(''web'', \<lparr>IsFailed = False, LastFailureReason = [], FailuresCount = 2\<rparr>)],
        Panicked (PanicMessage ''bad fail mode: Retry''))"
  using bad_fail_mode_panics_only_beyond_tolerance [of "[(''web'', zeroResourceState)]"
      "\<lparr>ResourceName = ''web'', Namespace = ''default'', FailMode = ''Retry'',
      AllowFailuresCount = Some 1, FailureThresholdSeconds = Some 0, LogWatchRegex = None,
      LogWatchRegexByContainerName = [], ShowLogsUntil = PodIsReady, SkipLogsForContainers = [],
      ShowLogsOnlyForContainers = []\<rparr>" zeroResourceState 1 "''crash''"]
    bad_fail_mode_panics_only_beyond_tolerance [of "[(''web'', zeroResourceState\<lparr>FailuresCount := 1\<rparr>)]"
      "\<lparr>ResourceName = ''web'', Namespace = ''default'', FailMode = ''Retry'',
      AllowFailuresCount = Some 1, FailureThresholdSeconds = Some 0, LogWatchRegex = None,
      LogWatchRegexByContainerName = [], ShowLogsUntil = PodIsReady, SkipLogsForContainers = [],
      ShowLogsOnlyForContainers = []\<rparr>" "zeroResourceState\<lparr>FailuresCount := 1\<rparr>" 1 "''crash''"]
  by (simp add: word_sle_eq zeroResourceState_def FailWholeDeployProcessImmediately_def
      HopeUntilEndOfDeployProcess_def IgnoreAndContinueDeployProcess_def)

end
